theory Spec2Isabelle
  imports
    Main
    "HOL-Library.Word"
    "HOL-Library.Multiset"
    "HOL-Library.Sublist"
    "HOL-Library.Char_ord"
    "HOL-Library.List_Lexorder"
    "HOL-Library.Option_ord"
begin

section \<open>The local file vault of CloudStore.py\<close>

text \<open>
  This theory embeds the class \<^verbatim>\<open>CloudStorage\<close> of \<^verbatim>\<open>src/CloudStore.py\<close>: the
  configuration loader, the content hash, and the four vault operations
  \<^verbatim>\<open>upload_file\<close>, \<^verbatim>\<open>download_file\<close>, \<^verbatim>\<open>get_local_files\<close> and
  \<^verbatim>\<open>remove_local_file\<close>. The SQLite table \<^verbatim>\<open>files\<close> is a list of rows in rowid
  order, the file system is a map from paths to nodes, and every operation takes the
  world and returns its outcome together with the world it leaves behind, also when
  it raises.
\<close>

subsection \<open>Bytes, errors\<close>

type_synonym byte = "8 word"
type_synonym bytes = "byte list"

text \<open>
  Every failure the Python code raises itself is a plain \<^verbatim>\<open>Exception\<close> told apart by
  its message; the others come from the libraries. The constructors carry the names
  the specification gives them:
  \<^item> \<open>FileNotFound\<close>: \<^verbatim>\<open>Exception("File does not exist")\<close>;
  \<^item> \<open>DuplicateContentError\<close>: \<^verbatim>\<open>Exception("File already exists with same content")\<close>;
  \<^item> \<open>RecordNotFound\<close>: \<^verbatim>\<open>Exception("File record not found")\<close>;
  \<^item> \<open>UnrecoverableContentError\<close>: \<^verbatim>\<open>Exception("This entry has no stored file data ...")\<close>;
  \<^item> \<open>TransportError\<close>: \<^verbatim>\<open>Exception("Download failed: ...")\<close>;
  \<^item> \<open>OSError\<close>: what \<^verbatim>\<open>open\<close>, \<^verbatim>\<open>read\<close>, \<^verbatim>\<open>write\<close> and \<^verbatim>\<open>os.makedirs\<close> raise;
  \<^item> \<open>OverflowError\<close>: what the \<^verbatim>\<open>sqlite3\<close> binding raises for an integer
    parameter outside the signed 64-bit range;
  \<^item> \<open>SQLiteError\<close>: what \<^verbatim>\<open>sqlite3\<close> raises when the database refuses a statement.
\<close>

datatype error =
    FileNotFound
  | DuplicateContentError
  | RecordNotFound
  | UnrecoverableContentError
  | TransportError
  | OSError
  | OverflowError
  | SQLiteError

subsection \<open>Library functions the code calls\<close>

text \<open>
  A parsed JSON value as Python holds it. \<open>JDict\<close> lists the items of the
  dictionary, each key once.
\<close>

datatype json =
    JNull
  | JBool bool
  | JInt int
  | JStr string
  | JList "json list"
  | JDict "(string \<times> json) list"

text \<open>
  A resolved path is the list of its components below the root; the root is the
  empty list.
\<close>

type_synonym path = "string list"

text \<open>
  The functions of the Python standard library and of the operating system that the
  code calls and that depend on the platform or are too large to restate are
  parameters of the model: \<^verbatim>\<open>hashlib.md5(data).hexdigest()\<close>,
  \<^verbatim>\<open>mimetypes.guess_type(p)[0]\<close>, \<^verbatim>\<open>Path(p).name\<close>, \<^verbatim>\<open>os.path.dirname\<close>,
  \<^verbatim>\<open>os.path.join\<close>, \<^verbatim>\<open>json.load\<close> (\<open>None\<close> when it raises),
  \<^verbatim>\<open>json.dump(_, indent=2)\<close>, and \<open>resolve\<close>, the components of the file that the
  operating system means by a path string (\<open>None\<close> for a string that names nothing,
  as the empty string does).
\<close>

record platform =
  md5_hexdigest :: "bytes \<Rightarrow> string"
  guess_type :: "string \<Rightarrow> string option"
  path_name :: "string \<Rightarrow> string"
  dirname :: "string \<Rightarrow> string"
  path_join :: "string \<Rightarrow> string \<Rightarrow> string"
  resolve :: "string \<Rightarrow> path option"
  json_load :: "bytes \<Rightarrow> json option"
  json_dump :: "json \<Rightarrow> bytes"

text \<open>
  What the environment decides during one call: the value of \<^verbatim>\<open>uuid.uuid4()\<close>, the
  two readings of \<^verbatim>\<open>datetime.utcnow().isoformat()\<close>, the I/O failure of the write
  to the destination, and the replies of the remote server (\<open>None\<close> when the request
  raises; for the upload, the \<^verbatim>\<open>id\<close> of the JSON reply when it has one).
\<close>

record env =
  uuid4 :: string
  utcnow1 :: string
  utcnow2 :: string
  io_fault :: "nat option"
  http_post :: "string option option"
  http_get :: "bytes option"

subsection \<open>The file system\<close>

datatype node = File bytes | Dir

text \<open>
  The file system maps resolved paths to nodes. The root always exists and is a
  directory.
\<close>

type_synonym filesystem = "path \<rightharpoonup> node"

definition lookup :: "filesystem \<Rightarrow> path \<Rightarrow> node option" where
  "lookup fsys p = (if p = [] then Some Dir else fsys p)"

definition is_dir :: "filesystem \<Rightarrow> path \<Rightarrow> bool" where
  "is_dir fsys p = (lookup fsys p = Some Dir)"

text \<open>\<^verbatim>\<open>os.path.exists\<close> and \<^verbatim>\<open>Path.exists\<close>: true for files and directories alike.\<close>

definition path_exists :: "platform \<Rightarrow> filesystem \<Rightarrow> string \<Rightarrow> bool" where
  "path_exists P fsys name =
     (case resolve P name of
        None \<Rightarrow> False
      | Some p \<Rightarrow> (case lookup fsys p of None \<Rightarrow> False | Some _ \<Rightarrow> True))"

text \<open>\<^verbatim>\<open>Path.read_bytes\<close> and \<^verbatim>\<open>open(p, "rb").read()\<close>: a directory or a missing path raises.\<close>

definition read_bytes :: "platform \<Rightarrow> filesystem \<Rightarrow> string \<Rightarrow> error + bytes" where
  "read_bytes P fsys name =
     (case resolve P name of
        None \<Rightarrow> Inl OSError
      | Some p \<Rightarrow>
        (case lookup fsys p of
           Some (File b) \<Rightarrow> Inr b
         | Some Dir \<Rightarrow> Inl OSError
         | None \<Rightarrow> Inl OSError))"

text \<open>
  \<^verbatim>\<open>os.makedirs(d, exist_ok=True)\<close> walks from the root down the components of
  \<open>d\<close>: a component that is a regular file raises, a missing one is created, an
  existing directory is entered. \<open>mkdirs fsys done todo\<close> has reached \<open>done\<close> and
  has the components \<open>todo\<close> left.
\<close>

fun mkdirs :: "filesystem \<Rightarrow> path \<Rightarrow> string list \<Rightarrow> error + filesystem" where
  "mkdirs fsys done [] = Inr fsys"
| "mkdirs fsys done (c # todo) =
     (case fsys (done @ [c]) of
        Some (File _) \<Rightarrow> Inl OSError
      | Some Dir \<Rightarrow> mkdirs fsys (done @ [c]) todo
      | None \<Rightarrow> mkdirs (fsys(done @ [c] \<mapsto> Dir)) (done @ [c]) todo)"

definition makedirs :: "platform \<Rightarrow> filesystem \<Rightarrow> string \<Rightarrow> error + filesystem" where
  "makedirs P fsys name =
     (case resolve P name of
        None \<Rightarrow> Inl OSError
      | Some d \<Rightarrow> mkdirs fsys [] d)"

text \<open>
  \<^verbatim>\<open>with open(p, "wb") as f: f.write(data)\<close>, and the same with \<^verbatim>\<open>"w"\<close>. The
  \<^verbatim>\<open>open\<close> raises when the string names nothing, when the path is a directory and
  when its parent is not an existing directory. Otherwise it creates the file or
  truncates it, and the bytes are then written in place. The argument \<open>fault\<close> is
  the environment's choice of an I/O failure during the write: \<open>None\<close> for none,
  \<open>Some k\<close> for an error raised once \<open>k\<close> bytes have reached the file. The code
  has no handler that removes the file, so what was written stays.
\<close>

definition write_bytes ::
  "platform \<Rightarrow> filesystem \<Rightarrow> string \<Rightarrow> bytes \<Rightarrow> nat option \<Rightarrow> (error + unit) \<times> filesystem" where
  "write_bytes P fsys name data fault =
     (case resolve P name of
        None \<Rightarrow> (Inl OSError, fsys)
      | Some p \<Rightarrow>
          if is_dir fsys p \<or> \<not> is_dir fsys (butlast p) then (Inl OSError, fsys)
          else
            (case fault of
               None \<Rightarrow> (Inr (), fsys(p \<mapsto> File data))
             | Some k \<Rightarrow> (Inl OSError, fsys(p \<mapsto> File (take k data)))))"

subsection \<open>The table and the world\<close>

text \<open>
  One row of the table \<^verbatim>\<open>files\<close>. Only \<^verbatim>\<open>id\<close> and \<^verbatim>\<open>local_name\<close> are
  \<^verbatim>\<open>NOT NULL\<close>; every other column is nullable.
\<close>

record row =
  row_id :: int
  local_name :: string
  cloud_id :: "string option"
  cloud_name :: "string option"
  file_size :: "int option"
  file_mime :: "string option"
  file_hash :: "string option"
  upload_date :: "string option"
  last_sync :: "string option"
  local_path :: "string option"
  is_synced :: "int option"
  file_data :: "bytes option"

text \<open>
  The world: the file system, the rows of the table in rowid order, the counter of
  \<^verbatim>\<open>AUTOINCREMENT\<close> (the largest rowid ever given out) and \<^verbatim>\<open>self.config\<close>.
\<close>

record world =
  fs :: filesystem
  files :: "row list"
  seq :: int
  config :: "string \<rightharpoonup> json"

definition LOCAL_ONLY :: bool where
  "LOCAL_ONLY = True"

definition DB_FILENAME :: string where
  "DB_FILENAME = ''cloud_files.sqlite3''"

definition CONFIG_FILENAME :: string where
  "CONFIG_FILENAME = ''cloud_config.json''"

text \<open>An SQLite integer, and so a rowid, is a signed 64-bit number.\<close>

definition in_int64 :: "int \<Rightarrow> bool" where
  "in_int64 i = (- (2 ^ 63) \<le> i \<and> i < 2 ^ 63)"

subsection \<open>\<^verbatim>\<open>_load_config\<close>\<close>

definition default_config_items :: "(string \<times> json) list" where
  "default_config_items =
     [(''cloud_server_url'', JStr ''https://your-cloud-server.com/api''),
      (''api_key'', JStr ''your-api-key-here''),
      (''upload_endpoint'', JStr ''/upload''),
      (''download_endpoint'', JStr ''/download''),
      (''list_endpoint'', JStr ''/list''),
      (''delete_endpoint'', JStr ''/delete''),
      (''timeout'', JInt 30)]"

definition default_config :: "string \<rightharpoonup> json" where
  "default_config = map_of default_config_items"

text \<open>
  The \<^verbatim>\<open>try\<close> block: open and parse the file, merge it over the defaults.
  \<^verbatim>\<open>{**default_config, **config}\<close> raises unless \<^verbatim>\<open>config\<close> is a dictionary; every
  exception of the block is caught, and the result is \<open>None\<close> then.
\<close>

definition try_load :: "platform \<Rightarrow> filesystem \<Rightarrow> string \<Rightarrow> (string \<rightharpoonup> json) option" where
  "try_load P fsys config_path =
     (case read_bytes P fsys config_path of
        Inl _ \<Rightarrow> None
      | Inr doc \<Rightarrow>
        (case json_load P doc of
           Some (JDict items) \<Rightarrow> Some (default_config ++ map_of items)
         | _ \<Rightarrow> None))"

text \<open>\<^verbatim>\<open>os.path.join(os.path.dirname(self.db_path), CONFIG_FILENAME)\<close>.\<close>

definition config_path_of :: "platform \<Rightarrow> string \<Rightarrow> string" where
  "config_path_of P db_path = path_join P (dirname P db_path) CONFIG_FILENAME"

text \<open>
  The whole function. When the file is missing or the \<^verbatim>\<open>try\<close> block failed, the
  defaults are written to the file (\<open>fault\<close> as in \<open>write_bytes\<close>) and returned.
\<close>

definition load_config ::
  "platform \<Rightarrow> nat option \<Rightarrow> filesystem \<Rightarrow> string \<Rightarrow> (error + (string \<rightharpoonup> json)) \<times> filesystem" where
  "load_config P fault fsys db_path =
     (let config_path = config_path_of P db_path;
          loaded = (if path_exists P fsys config_path then try_load P fsys config_path else None)
      in case loaded of
           Some cfg \<Rightarrow> (Inr cfg, fsys)
         | None \<Rightarrow>
           (case write_bytes P fsys config_path (json_dump P (JDict default_config_items)) fault of
              (Inl e, fsys') \<Rightarrow> (Inl e, fsys')
            | (Inr _, fsys') \<Rightarrow> (Inr default_config, fsys')))"

subsection \<open>\<^verbatim>\<open>_get_file_hash\<close>\<close>

text \<open>
  A \<^verbatim>\<open>hashlib.md5()\<close> object is modelled by the bytes fed to it so far:
  \<^verbatim>\<open>update(chunk)\<close> appends, and \<^verbatim>\<open>hexdigest()\<close> is the digest of all of them.
  The loop reads chunks of 4096 bytes until \<^verbatim>\<open>f.read\<close> returns the empty chunk.
\<close>

function hash_loop :: "bytes \<Rightarrow> bytes \<Rightarrow> bytes" where
  "hash_loop hash_md5 rest =
     (let chunk = take 4096 rest
      in if chunk = [] then hash_md5
         else hash_loop (hash_md5 @ chunk) (drop 4096 rest))"
  by pat_completeness auto
termination
  by (relation "measure (\<lambda>(h, rest). length rest)") auto

declare hash_loop.simps [simp del]

definition get_file_hash :: "platform \<Rightarrow> filesystem \<Rightarrow> string \<Rightarrow> error + string" where
  "get_file_hash P fsys file_path =
     (case read_bytes P fsys file_path of
        Inl e \<Rightarrow> Inl e
      | Inr content \<Rightarrow> Inr (md5_hexdigest P (hash_loop [] content)))"

subsection \<open>\<^verbatim>\<open>upload_file\<close>\<close>

text \<open>
  \<^verbatim>\<open>"your-cloud-server.com" in self.config["cloud_server_url"]\<close>. With
  \<^verbatim>\<open>LOCAL_ONLY = True\<close> the \<^verbatim>\<open>or\<close> never evaluates it.
\<close>

definition placeholder_url :: "(string \<rightharpoonup> json) \<Rightarrow> bool" where
  "placeholder_url cfg =
     (case cfg ''cloud_server_url'' of
        Some (JStr url) \<Rightarrow> sublist ''your-cloud-server.com'' url
      | _ \<Rightarrow> False)"

definition local_mode :: "world \<Rightarrow> bool" where
  "local_mode s = (LOCAL_ONLY \<or> placeholder_url (config s))"

text \<open>\<^verbatim>\<open>x or default\<close> on an optional string: \<^verbatim>\<open>None\<close> and \<^verbatim>\<open>""\<close> are both falsy.\<close>

definition or_else :: "string option \<Rightarrow> string \<Rightarrow> string" where
  "or_else x d = (case x of None \<Rightarrow> d | Some v \<Rightarrow> if v = [] then d else v)"

text \<open>\<^verbatim>\<open>SELECT id FROM files WHERE file_hash = ?\<close>, \<^verbatim>\<open>fetchone()\<close>.\<close>

definition select_by_hash :: "row list \<Rightarrow> string \<Rightarrow> row option" where
  "select_by_hash rs h = find (\<lambda>r. file_hash r = Some h) rs"

text \<open>
  \<^verbatim>\<open>INTEGER PRIMARY KEY AUTOINCREMENT\<close>: the next rowid is one more than the largest
  rowid the table has ever held. When that is the largest 64-bit integer, SQLite
  refuses the \<^verbatim>\<open>INSERT\<close>.
\<close>

definition max_rowid :: "world \<Rightarrow> int" where
  "max_rowid s = fold max (map row_id (files s)) (seq s)"

definition next_id :: "world \<Rightarrow> int" where
  "next_id s = max_rowid s + 1"

text \<open>Where the record's remote id comes from, and whether it counts as synced.\<close>

definition choose_cloud_id :: "platform \<Rightarrow> env \<Rightarrow> world \<Rightarrow> string \<Rightarrow> string \<times> int" where
  "choose_cloud_id P E s file_path =
     (if local_mode s then (uuid4 E, 0)
      else
        (case read_bytes P (fs s) file_path of
           Inl _ \<Rightarrow> (uuid4 E, 0)
         | Inr _ \<Rightarrow>
           (case http_post E of
              None \<Rightarrow> (uuid4 E, 0)
            | Some None \<Rightarrow> (uuid4 E, 1)
            | Some (Some i) \<Rightarrow> (i, 1))))"

text \<open>
  The argument \<open>file_path\<close> is \<^verbatim>\<open>str(Path(file_path))\<close>; the result is the pair of
  \<^verbatim>\<open>{"id": cloud_id, "name": cloud_name}\<close>.
\<close>

definition upload_file ::
  "platform \<Rightarrow> env \<Rightarrow> world \<Rightarrow> string \<Rightarrow> string option \<Rightarrow> (error + string \<times> string) \<times> world" where
  "upload_file P E s file_path cloud_name0 =
     (if \<not> path_exists P (fs s) file_path then (Inl FileNotFound, s)
      else
        let cloud_name = or_else cloud_name0 (path_name P file_path)
        in case get_file_hash P (fs s) file_path of
             Inl e \<Rightarrow> (Inl e, s)
           | Inr fhash \<Rightarrow>
             (case select_by_hash (files s) fhash of
                Some existing \<Rightarrow> (Inl DuplicateContentError, s)
              | None \<Rightarrow>
                (let (cid, synced) = choose_cloud_id P E s file_path
                 in case read_bytes P (fs s) file_path of
                      Inl e \<Rightarrow> (Inl e, s)
                    | Inr file_bytes \<Rightarrow>
                      if \<not> in_int64 (next_id s) then (Inl SQLiteError, s)
                      else
                        (let new_row =
                               \<lparr>row_id = next_id s,
                                local_name = path_name P file_path,
                                cloud_id = Some cid,
                                cloud_name = Some cloud_name,
                                file_size = Some (int (length file_bytes)),
                                file_mime = Some (or_else (guess_type P file_path)
                                                    ''application/octet-stream''),
                                file_hash = Some fhash,
                                upload_date = Some (utcnow1 E),
                                last_sync = Some (utcnow2 E),
                                local_path = Some file_path,
                                is_synced = Some synced,
                                file_data = Some file_bytes\<rparr>
                         in (Inr (cid, cloud_name),
                             s\<lparr>files := files s @ [new_row], seq := next_id s\<rparr>)))))"

subsection \<open>\<^verbatim>\<open>download_file\<close>\<close>

text \<open>\<^verbatim>\<open>SELECT local_path, file_data FROM files WHERE cloud_id = ?\<close>, \<^verbatim>\<open>fetchone()\<close>.\<close>

definition select_by_cloud_id :: "row list \<Rightarrow> string \<Rightarrow> row option" where
  "select_by_cloud_id rs cid = find (\<lambda>r. cloud_id r = Some cid) rs"

text \<open>
  \<^verbatim>\<open>os.makedirs(os.path.dirname(local_path) or '.', exist_ok=True)\<close> and then the
  write to \<^verbatim>\<open>local_path\<close>.
\<close>

definition write_out ::
  "platform \<Rightarrow> filesystem \<Rightarrow> string \<Rightarrow> bytes \<Rightarrow> nat option \<Rightarrow> (error + unit) \<times> filesystem" where
  "write_out P fsys dest data fault =
     (case makedirs P fsys (or_else (Some (dirname P dest)) ''.'') of
        Inl e \<Rightarrow> (Inl e, fsys)
      | Inr fsys' \<Rightarrow> write_bytes P fsys' dest data fault)"

text \<open>\<^verbatim>\<open>local_src and os.path.exists(local_src)\<close>: the path to backfill from, if any.\<close>

definition backfill_source :: "platform \<Rightarrow> filesystem \<Rightarrow> row \<Rightarrow> string option" where
  "backfill_source P fsys r =
     (case local_path r of
        None \<Rightarrow> None
      | Some local_src \<Rightarrow>
          if local_src \<noteq> [] \<and> path_exists P fsys local_src then Some local_src else None)"

text \<open>\<^verbatim>\<open>UPDATE files SET file_data = ?, last_sync = ? WHERE cloud_id = ?\<close>.\<close>

definition update_file_data :: "row list \<Rightarrow> string \<Rightarrow> bytes \<Rightarrow> string \<Rightarrow> row list" where
  "update_file_data rs cid data now =
     map (\<lambda>r. if cloud_id r = Some cid
               then r\<lparr>file_data := Some data, last_sync := Some now\<rparr> else r) rs"

definition download_file ::
  "platform \<Rightarrow> env \<Rightarrow> world \<Rightarrow> string \<Rightarrow> string \<Rightarrow> (error + bool) \<times> world" where
  "download_file P E s cid dest =
     (if local_mode s then
        (case select_by_cloud_id (files s) cid of
           None \<Rightarrow> (Inl RecordNotFound, s)
         | Some r \<Rightarrow>
           (case file_data r of
              Some blob \<Rightarrow>
                (case write_out P (fs s) dest blob (io_fault E) of
                   (Inl e, fsys') \<Rightarrow> (Inl e, s\<lparr>fs := fsys'\<rparr>)
                 | (Inr _, fsys') \<Rightarrow> (Inr True, s\<lparr>fs := fsys'\<rparr>))
            | None \<Rightarrow>
                (case backfill_source P (fs s) r of
                   Some local_src \<Rightarrow>
                     (case read_bytes P (fs s) local_src of
                        Inl e \<Rightarrow> (Inl e, s)
                      | Inr data \<Rightarrow>
                        (case write_out P (fs s) dest data (io_fault E) of
                           (Inl e, fsys') \<Rightarrow> (Inl e, s\<lparr>fs := fsys'\<rparr>)
                         | (Inr _, fsys') \<Rightarrow>
                             (Inr True,
                              s\<lparr>fs := fsys',
                                files := update_file_data (files s) cid data (utcnow1 E)\<rparr>)))
                 | None \<Rightarrow> (Inl UnrecoverableContentError, s))))
      else
        (case http_get E of
           None \<Rightarrow> (Inl TransportError, s)
         | Some content \<Rightarrow>
           (case write_bytes P (fs s) dest content (io_fault E) of
              (Inl e, fsys') \<Rightarrow> (Inl e, s\<lparr>fs := fsys'\<rparr>)
            | (Inr _, fsys') \<Rightarrow> (Inr True, s\<lparr>fs := fsys'\<rparr>))))"

subsection \<open>\<^verbatim>\<open>get_local_files\<close> and \<^verbatim>\<open>remove_local_file\<close>\<close>

text \<open>
  \<^verbatim>\<open>SELECT * FROM files ORDER BY upload_date DESC\<close>. The column is text and is
  compared byte by byte, \<^verbatim>\<open>NULL\<close> below every string, which is the order of
  \<open>string option\<close>. Rows with equal keys come out in rowid order, the order in
  which the scan of the table feeds them to the sort.
\<close>

definition get_local_files :: "world \<Rightarrow> row list" where
  "get_local_files s = rev (sort_key upload_date (rev (files s)))"

text \<open>
  \<^verbatim>\<open>DELETE FROM files WHERE id = ?\<close>. The function has no \<^verbatim>\<open>raise\<close>; binding an
  integer that does not fit 64 bits makes \<^verbatim>\<open>execute\<close> raise before any row is
  touched.
\<close>

definition remove_local_file :: "world \<Rightarrow> int \<Rightarrow> (error + unit) \<times> world" where
  "remove_local_file s file_id =
     (if \<not> in_int64 file_id then (Inl OverflowError, s)
      else (Inr (), s\<lparr>files := filter (\<lambda>r. row_id r \<noteq> file_id) (files s)\<rparr>))"

subsection \<open>Histories\<close>

text \<open>
  What can happen to the vault between two calls: the three operations that act on
  the world, and any change that other programs make to the file system.
\<close>

datatype action =
    Upload env string "string option"
  | Download env string string
  | Remove int
  | Outside filesystem

definition step :: "platform \<Rightarrow> world \<Rightarrow> action \<Rightarrow> world" where
  "step P s a =
     (case a of
        Upload E file_path cloud_name0 \<Rightarrow> snd (upload_file P E s file_path cloud_name0)
      | Download E cid dest \<Rightarrow> snd (download_file P E s cid dest)
      | Remove file_id \<Rightarrow> snd (remove_local_file s file_id)
      | Outside fsys \<Rightarrow> s\<lparr>fs := fsys\<rparr>)"

definition run :: "platform \<Rightarrow> world \<Rightarrow> action list \<Rightarrow> world" where
  "run P s acts = foldl (step P) s acts"

subsection \<open>Preconditions used by the properties\<close>

text \<open>
  \<^verbatim>\<open>open(name, "wb")\<close> would not raise: the string names a path that is not a
  directory and whose parent is an existing directory.
\<close>

definition can_open :: "platform \<Rightarrow> filesystem \<Rightarrow> string \<Rightarrow> bool" where
  "can_open P fsys name =
     (case resolve P name of
        None \<Rightarrow> False
      | Some p \<Rightarrow> \<not> is_dir fsys p \<and> is_dir fsys (butlast p))"

text \<open>
  The destination of a fetch can be written: \<^verbatim>\<open>os.makedirs\<close> on its directory
  succeeds and the \<^verbatim>\<open>open\<close> that follows would not raise.
\<close>

definition can_write :: "platform \<Rightarrow> filesystem \<Rightarrow> string \<Rightarrow> bool" where
  "can_write P fsys dest =
     (case makedirs P fsys (or_else (Some (dirname P dest)) ''.'') of
        Inl _ \<Rightarrow> False
      | Inr fsys' \<Rightarrow> can_open P fsys' dest)"

text \<open>
  The data model's rule that a remote id names one record: no two rows carry the
  same non-null \<^verbatim>\<open>cloud_id\<close>.
\<close>

definition unique_remote_ids :: "row list \<Rightarrow> bool" where
  "unique_remote_ids rs = distinct (map cloud_id (filter (\<lambda>r. cloud_id r \<noteq> None) rs))"

subsection \<open>A concrete platform and worlds for running the model\<close>

text \<open>
  A small platform on which the definitions evaluate: POSIX-style paths resolved from
  the root, which is also the working directory, with \<^verbatim>\<open>..\<close> not interpreted; a
  toy digest (the bytes in hexadecimal); no MIME table; and JSON functions that know
  the single document \<^verbatim>\<open>{"timeout": 5}\<close>. The theorems below hold for every
  platform; this one only provides concrete inputs.
\<close>

definition hex_digit :: "nat \<Rightarrow> char" where
  "hex_digit n = ''0123456789abcdef'' ! (n mod 16)"

definition demo_digest :: "bytes \<Rightarrow> string" where
  "demo_digest bs = concat (map (\<lambda>b. [hex_digit (unat b div 16), hex_digit (unat b)]) bs)"

definition posix_name :: "string \<Rightarrow> string" where
  "posix_name p = rev (takeWhile (\<lambda>c. c \<noteq> CHR ''/'') (rev p))"

definition posix_dirname :: "string \<Rightarrow> string" where
  "posix_dirname p =
     (let hd_part = rev (dropWhile (\<lambda>c. c \<noteq> CHR ''/'') (rev p));
          stripped = rev (dropWhile (\<lambda>c. c = CHR ''/'') (rev hd_part))
      in if stripped = [] then hd_part else stripped)"

definition posix_join :: "string \<Rightarrow> string \<Rightarrow> string" where
  "posix_join a b =
     (if b \<noteq> [] \<and> hd b = CHR ''/'' then b
      else if a = [] \<or> last a = CHR ''/'' then a @ b
      else a @ ''/'' @ b)"

fun split_at :: "char \<Rightarrow> string \<Rightarrow> string \<Rightarrow> string list" where
  "split_at sep acc [] = [rev acc]"
| "split_at sep acc (c # cs) =
     (if c = sep then rev acc # split_at sep [] cs else split_at sep (c # acc) cs)"

definition posix_resolve :: "string \<Rightarrow> path option" where
  "posix_resolve name =
     (if name = [] then None
      else Some (filter (\<lambda>c. c \<noteq> [] \<and> c \<noteq> ''.'') (split_at (CHR ''/'') [] name)))"

text \<open>The bytes of the documents \<^verbatim>\<open>{"timeout": 5}\<close> and \<^verbatim>\<open>{"a":1,}\<close>.\<close>

definition demo_json_text :: bytes where
  "demo_json_text = [123, 34, 116, 105, 109, 101, 111, 117, 116, 34, 58, 32, 53, 125]"

definition broken_json_text :: bytes where
  "broken_json_text = [123, 34, 97, 34, 58, 49, 44, 125]"

definition demo_platform :: platform where
  "demo_platform =
     \<lparr>md5_hexdigest = demo_digest,
      guess_type = (\<lambda>p. None),
      path_name = posix_name,
      dirname = posix_dirname,
      path_join = posix_join,
      resolve = posix_resolve,
      json_load = (\<lambda>b. if b = demo_json_text then Some (JDict [(''timeout'', JInt 5)]) else None),
      json_dump = (\<lambda>j. if j = JDict [(''timeout'', JInt 5)] then demo_json_text else [123, 125])\<rparr>"

definition demo_env :: "string \<Rightarrow> string \<Rightarrow> env" where
  "demo_env u t =
     \<lparr>uuid4 = u, utcnow1 = t, utcnow2 = t, io_fault = None,
      http_post = None, http_get = None\<rparr>"

text \<open>Four files in \<^verbatim>\<open>/in\<close>, two of them with the same bytes.\<close>

definition demo_fs :: filesystem where
  "demo_fs =
     [[''in''] \<mapsto> Dir,
      [''in'', ''a.txt''] \<mapsto> File [1, 2, 3],
      [''in'', ''b.txt''] \<mapsto> File [1, 2, 3],
      [''in'', ''c.txt''] \<mapsto> File [4, 5],
      [''in'', ''d.txt''] \<mapsto> File [6]]"

definition demo_world :: world where
  "demo_world = \<lparr>fs = demo_fs, files = [], seq = 0, config = default_config\<rparr>"

text \<open>The row that an upload of one of these files at time \<open>t\<close> inserts.\<close>

definition demo_row :: "int \<Rightarrow> string \<Rightarrow> string \<Rightarrow> string \<Rightarrow> bytes \<Rightarrow> row" where
  "demo_row i u t name b =
     \<lparr>row_id = i, local_name = name, cloud_id = Some u,
      cloud_name = Some name, file_size = Some (int (length b)),
      file_mime = Some ''application/octet-stream'',
      file_hash = Some (demo_digest b), upload_date = Some t,
      last_sync = Some t, local_path = Some (''/in/'' @ name),
      is_synced = Some 0, file_data = Some b\<rparr>"

definition demo_row1 :: row where
  "demo_row1 = demo_row 1 ''u1'' ''2024-05-01T10:00:00'' ''a.txt'' [1, 2, 3]"

text \<open>The world after \<^verbatim>\<open>/in/a.txt\<close> has been uploaded into the empty vault.\<close>

definition demo_world1 :: world where
  "demo_world1 = demo_world\<lparr>files := [demo_row1], seq := 1\<rparr>"

text \<open>
  Three uploads whose clock readings strictly increase, and three uploads of which
  the second is stamped like the first and the third, after the clock was set back,
  earlier than both.
\<close>

definition rising_world :: world where
  "rising_world =
     demo_world\<lparr>files := [demo_row1,
                           demo_row 2 ''u2'' ''2024-05-01T10:00:01'' ''c.txt'' [4, 5],
                           demo_row 3 ''u3'' ''2024-05-01T10:00:02.500000'' ''d.txt'' [6]],
                 seq := 3\<rparr>"

definition tied_world2 :: world where
  "tied_world2 =
     demo_world\<lparr>files := [demo_row1,
                           demo_row 2 ''u2'' ''2024-05-01T10:00:00'' ''c.txt'' [4, 5]],
                 seq := 2\<rparr>"

definition tied_world :: world where
  "tied_world =
     demo_world\<lparr>files := [demo_row1,
                           demo_row 2 ''u2'' ''2024-05-01T10:00:00'' ''c.txt'' [4, 5],
                           demo_row 3 ''u3'' ''2024-05-01T09:59:59'' ''d.txt'' [6]],
                 seq := 3\<rparr>"

text \<open>A file system with a settings file next to the database, one with a settings
  file that is not valid JSON, and one without.\<close>

definition config_fs :: filesystem where
  "config_fs = [[''app''] \<mapsto> Dir, [''app'', ''cloud_config.json''] \<mapsto> File demo_json_text]"

definition broken_config_fs :: filesystem where
  "broken_config_fs =
     [[''app''] \<mapsto> Dir, [''app'', ''cloud_config.json''] \<mapsto> File broken_json_text]"

definition empty_fs :: filesystem where
  "empty_fs = [[''app''] \<mapsto> Dir]"

text \<open>
  A record from before the vault stored bytes: its \<^verbatim>\<open>file_data\<close> is null and its
  \<^verbatim>\<open>local_path\<close> still names \<^verbatim>\<open>/in/a.txt\<close>.
\<close>

definition legacy_row :: row where
  "legacy_row =
     \<lparr>row_id = 4, local_name = ''a.txt'', cloud_id = Some ''c9'',
      cloud_name = Some ''a.txt'', file_size = Some 3, file_mime = None,
      file_hash = Some ''010203'', upload_date = Some ''2023-01-01T08:00:00'',
      last_sync = Some ''2023-01-01T08:00:00'', local_path = Some ''/in/a.txt'',
      is_synced = Some 0, file_data = None\<rparr>"

definition legacy_world :: world where
  "legacy_world = demo_world\<lparr>files := [legacy_row], seq := 4\<rparr>"

text \<open>The same record once \<^verbatim>\<open>/in/a.txt\<close> is gone.\<close>

definition orphan_world :: world where
  "orphan_world = legacy_world\<lparr>fs := demo_fs([''in'', ''a.txt''] := None)\<rparr>"

text \<open>An environment whose write to the destination fails after one byte.\<close>

definition faulty_env :: env where
  "faulty_env = (demo_env ''u3'' ''2024-05-02T09:00:00'')\<lparr>io_fault := Some 1\<rparr>"

section \<open>Properties\<close>

subsection \<open>The content hash\<close>

text \<open>Reading in chunks of 4096 bytes feeds the hash object the whole file, in order.\<close>

lemma hash_loop_eq: "hash_loop h rest = h @ rest"
proof (induction h rest rule: hash_loop.induct)
  case (1 h rest)
  show ?case
  proof (cases "take 4096 rest = []")
    case True
    then have "rest = []" by simp
    then show ?thesis by (subst hash_loop.simps) simp
  next
    case False
    then have "hash_loop h rest = hash_loop (h @ take 4096 rest) (drop 4096 rest)"
      by (subst hash_loop.simps) (simp add: Let_def)
    also have "\<dots> = (h @ take 4096 rest) @ drop 4096 rest"
      using "1.IH" [OF refl False] .
    finally show ?thesis by simp
  qed
qed

lemma get_file_hash_read:
  "read_bytes P fsys p = Inr b \<Longrightarrow> get_file_hash P fsys p = Inr (md5_hexdigest P b)"
  by (simp add: get_file_hash_def hash_loop_eq)

lemma get_file_hash_Inr:
  "get_file_hash P fsys p = Inr h \<Longrightarrow>
     \<exists>b. read_bytes P fsys p = Inr b \<and> h = md5_hexdigest P b"
  by (auto simp: get_file_hash_def hash_loop_eq split: sum.splits)

lemma read_bytes_exists:
  "read_bytes P fsys p = Inr b \<Longrightarrow> path_exists P fsys p"
  by (auto simp: read_bytes_def path_exists_def split: option.splits node.splits)

subsection \<open>What \<^verbatim>\<open>upload_file\<close> does\<close>

lemma select_by_hash_None_filter:
  "select_by_hash rs h = None \<Longrightarrow> filter (\<lambda>r. file_hash r = Some h) rs = []"
  by (auto simp: select_by_hash_def find_None_iff filter_empty_conv)

lemma upload_file_duplicate:
  assumes "read_bytes P (fs s) p = Inr b"
    and "select_by_hash (files s) (md5_hexdigest P b) = Some r"
  shows "upload_file P E s p n = (Inl DuplicateContentError, s)"
  using assms read_bytes_exists [OF assms(1)]
  by (simp add: upload_file_def get_file_hash_read)

lemma upload_file_duplicate_mem:
  assumes "read_bytes P (fs s) p = Inr b" and "r \<in> set (files s)"
    and "file_hash r = Some (md5_hexdigest P b)"
  shows "upload_file P E s p n = (Inl DuplicateContentError, s)"
proof -
  have "find (\<lambda>r. file_hash r = Some (md5_hexdigest P b)) (files s) \<noteq> None"
    using assms(2,3) by (auto simp: find_None_iff)
  then obtain r' where "select_by_hash (files s) (md5_hexdigest P b) = Some r'"
    by (auto simp: select_by_hash_def)
  with assms(1) show ?thesis by (rule upload_file_duplicate)
qed

text \<open>
  In local mode, an existing regular file whose hash is not in the table is accepted
  while rowids last, and this is the row it adds.
\<close>

lemma upload_file_local:
  assumes rd: "read_bytes P (fs s) p = Inr b"
    and none: "select_by_hash (files s) (md5_hexdigest P b) = None"
    and room: "in_int64 (next_id s)"
  shows "upload_file P E s p n =
           (Inr (uuid4 E, or_else n (path_name P p)),
            s\<lparr>files := files s @
                 [\<lparr>row_id = next_id s,
                   local_name = path_name P p,
                   cloud_id = Some (uuid4 E),
                   cloud_name = Some (or_else n (path_name P p)),
                   file_size = Some (int (length b)),
                   file_mime = Some (or_else (guess_type P p) ''application/octet-stream''),
                   file_hash = Some (md5_hexdigest P b),
                   upload_date = Some (utcnow1 E),
                   last_sync = Some (utcnow2 E),
                   local_path = Some p,
                   is_synced = Some 0,
                   file_data = Some b\<rparr>],
              seq := next_id s\<rparr>)"
  using assms read_bytes_exists [OF rd]
  by (simp add: upload_file_def get_file_hash_read choose_cloud_id_def local_mode_def
      LOCAL_ONLY_def Let_def)

text \<open>A successful upload appends exactly one row, built from the source file.\<close>

lemma upload_file_Inr:
  assumes "upload_file P E s p n = (Inr res, s')"
  shows "\<exists>b r. read_bytes P (fs s) p = Inr b
           \<and> select_by_hash (files s) (md5_hexdigest P b) = None
           \<and> s' = s\<lparr>files := files s @ [r], seq := next_id s\<rparr>
           \<and> row_id r = next_id s
           \<and> cloud_id r = Some (fst res)
           \<and> cloud_name r = Some (snd res)
           \<and> file_hash r = Some (md5_hexdigest P b)
           \<and> file_data r = Some b
           \<and> file_size r = Some (int (length b))
           \<and> upload_date r = Some (utcnow1 E)
           \<and> local_path r = Some p"
proof -
  from assms have ex: "path_exists P (fs s) p"
    by (auto simp: upload_file_def split: if_splits)
  from assms ex obtain h where h: "get_file_hash P (fs s) p = Inr h"
    by (cases "get_file_hash P (fs s) p") (auto simp: upload_file_def Let_def)
  then obtain b where rd: "read_bytes P (fs s) p = Inr b" and hb: "h = md5_hexdigest P b"
    using get_file_hash_Inr by blast
  from assms ex h have none: "select_by_hash (files s) h = None"
    by (cases "select_by_hash (files s) h") (auto simp: upload_file_def Let_def)
  obtain cid synced where c: "choose_cloud_id P E s p = (cid, synced)"
    by (cases "choose_cloud_id P E s p")
  from assms ex h none rd c have room: "in_int64 (next_id s)"
    by (auto simp: upload_file_def Let_def split: if_splits)
  from assms ex h none rd c room show ?thesis
    using hb by (simp add: upload_file_def Let_def) force
qed

text \<open>Whatever the outcome, an upload leaves the earlier rows as they are.\<close>

lemma upload_file_files:
  "files (snd (upload_file P E s p n)) = files s
   \<or> (\<exists>r. files (snd (upload_file P E s p n)) = files s @ [r])"
proof (cases "upload_file P E s p n")
  case (Pair out s')
  show ?thesis
  proof (cases out)
    case (Inl e)
    with Pair have "s' = s"
      by (auto simp: upload_file_def Let_def
          split: if_splits sum.splits option.splits prod.splits)
    with Pair show ?thesis by simp
  next
    case (Inr res)
    with Pair upload_file_Inr [of P E s p n res s'] show ?thesis by auto
  qed
qed

subsection \<open>Running the model\<close>

lemmas demo_defs =
  demo_platform_def demo_env_def demo_digest_def hex_digit_def
  posix_name_def posix_dirname_def posix_join_def posix_resolve_def

lemmas fs_defs =
  read_bytes_def path_exists_def lookup_def is_dir_def makedirs_def write_bytes_def
  can_open_def can_write_def or_else_def

lemma demo_read_a: "read_bytes demo_platform demo_fs ''/in/a.txt'' = Inr [1, 2, 3]"
  by (simp add: fs_defs demo_defs demo_fs_def)

lemma demo_read_b: "read_bytes demo_platform demo_fs ''/in/b.txt'' = Inr [1, 2, 3]"
  by (simp add: fs_defs demo_defs demo_fs_def)

lemma demo_read_c: "read_bytes demo_platform demo_fs ''/in/c.txt'' = Inr [4, 5]"
  by (simp add: fs_defs demo_defs demo_fs_def)

lemma demo_read_d: "read_bytes demo_platform demo_fs ''/in/d.txt'' = Inr [6]"
  by (simp add: fs_defs demo_defs demo_fs_def)

lemma demo_upload1:
  "upload_file demo_platform (demo_env ''u1'' ''2024-05-01T10:00:00'') demo_world ''/in/a.txt'' None
     = (Inr (''u1'', ''a.txt''), demo_world1)"
proof -
  have rd: "read_bytes demo_platform (fs demo_world) ''/in/a.txt'' = Inr [1, 2, 3]"
    using demo_read_a by (simp add: demo_world_def)
  have none: "select_by_hash (files demo_world) (md5_hexdigest demo_platform [1, 2, 3]) = None"
    by (simp add: select_by_hash_def demo_world_def)
  have room: "in_int64 (next_id demo_world)"
    by (simp add: in_int64_def next_id_def max_rowid_def demo_world_def)
  show ?thesis
    by (simp add: upload_file_local [OF rd none room])
      (simp add: demo_world1_def demo_world_def demo_row1_def demo_row_def demo_defs
        or_else_def next_id_def max_rowid_def)
qed

lemma demo_upload2_tied:
  "upload_file demo_platform (demo_env ''u2'' ''2024-05-01T10:00:00'') demo_world1 ''/in/c.txt'' None
     = (Inr (''u2'', ''c.txt''), tied_world2)"
proof -
  have rd: "read_bytes demo_platform (fs demo_world1) ''/in/c.txt'' = Inr [4, 5]"
    using demo_read_c by (simp add: demo_world1_def demo_world_def)
  have none: "select_by_hash (files demo_world1) (md5_hexdigest demo_platform [4, 5]) = None"
    by (simp add: select_by_hash_def demo_world1_def demo_row1_def demo_row_def demo_defs)
  have room: "in_int64 (next_id demo_world1)"
    by (simp add: in_int64_def next_id_def max_rowid_def demo_world1_def demo_world_def
        demo_row1_def demo_row_def)
  show ?thesis
    by (simp add: upload_file_local [OF rd none room])
      (simp add: tied_world2_def demo_world1_def demo_world_def demo_row1_def demo_row_def
        demo_defs or_else_def next_id_def max_rowid_def)
qed

lemma demo_upload3_tied:
  "upload_file demo_platform (demo_env ''u3'' ''2024-05-01T09:59:59'') tied_world2 ''/in/d.txt'' None
     = (Inr (''u3'', ''d.txt''), tied_world)"
proof -
  have rd: "read_bytes demo_platform (fs tied_world2) ''/in/d.txt'' = Inr [6]"
    using demo_read_d by (simp add: tied_world2_def demo_world_def)
  have none: "select_by_hash (files tied_world2) (md5_hexdigest demo_platform [6]) = None"
    by (simp add: select_by_hash_def tied_world2_def demo_row1_def demo_row_def demo_defs)
  have room: "in_int64 (next_id tied_world2)"
    by (simp add: in_int64_def next_id_def max_rowid_def tied_world2_def demo_world_def
        demo_row1_def demo_row_def)
  show ?thesis
    by (simp add: upload_file_local [OF rd none room])
      (simp add: tied_world_def tied_world2_def demo_world_def demo_row1_def demo_row_def
        demo_defs or_else_def next_id_def max_rowid_def)
qed

lemma demo_world1_fs: "fs demo_world1 = demo_fs"
  by (simp add: demo_world1_def demo_world_def)

lemma demo_world1_files: "files demo_world1 = [demo_row1]"
  by (simp add: demo_world1_def)

subsection \<open>Upload: stored bytes and stored hash\<close>

text \<open>
  C10. Every successful \<^verbatim>\<open>upload_file\<close> appends one row whose \<^verbatim>\<open>file_data\<close> is
  not null and holds the full bytes of the source file, and whose \<^verbatim>\<open>file_hash\<close>
  is the MD5 hex digest of exactly those stored bytes.
\<close>

theorem upload_file_blob_matches_hash:
  assumes "upload_file P E s file_path cloud_name0 = (Inr res, s')"
  shows "\<exists>content r. read_bytes P (fs s) file_path = Inr content
           \<and> files s' = files s @ [r]
           \<and> file_data r = Some content
           \<and> file_hash r = Some (md5_hexdigest P content)"
proof -
  from upload_file_Inr [OF assms] obtain b r where
    "read_bytes P (fs s) file_path = Inr b"
    "s' = s\<lparr>files := files s @ [r], seq := next_id s\<rparr>"
    "file_hash r = Some (md5_hexdigest P b)" "file_data r = Some b"
    by blast
  then show ?thesis by auto
qed

theorem upload_file_blob_matches_hash_witness:
  "upload_file demo_platform (demo_env ''u1'' ''2024-05-01T10:00:00'') demo_world ''/in/a.txt'' None
     = (Inr (''u1'', ''a.txt''), demo_world1)
   \<and> (\<exists>content r. read_bytes demo_platform (fs demo_world) ''/in/a.txt'' = Inr content
           \<and> files demo_world1 = files demo_world @ [r]
           \<and> file_data r = Some content
           \<and> file_hash r = Some (md5_hexdigest demo_platform content))"
  using upload_file_blob_matches_hash [OF demo_upload1] demo_upload1 by blast

subsection \<open>Upload: duplicates are rejected\<close>

text \<open>
  C1. After a successful upload of a file with bytes \<open>b1\<close>, a second upload of any
  file whose bytes have the same hash, under any path and any display name, fails
  with \<open>DuplicateContentError\<close>; the failing call leaves the world as it was, and
  the table holds exactly one row with that hash.
\<close>

theorem duplicate_upload_rejected:
  assumes first: "upload_file P E1 s p1 n1 = (Inr res, s1)"
    and src1: "read_bytes P (fs s) p1 = Inr b1"
    and store: "files s2 = files s1"
    and src2: "read_bytes P (fs s2) p2 = Inr b2"
    and same: "md5_hexdigest P b2 = md5_hexdigest P b1"
  shows "upload_file P E2 s2 p2 n2 = (Inl DuplicateContentError, s2)
         \<and> length (filter (\<lambda>r. file_hash r = Some (md5_hexdigest P b2)) (files s2)) = 1"
proof -
  from upload_file_Inr [OF first] src1 obtain r where
    none: "select_by_hash (files s) (md5_hexdigest P b1) = None"
    and s1: "s1 = s\<lparr>files := files s @ [r], seq := next_id s\<rparr>"
    and hr: "file_hash r = Some (md5_hexdigest P b1)"
    by auto
  have files2: "files s2 = files s @ [r]"
    using store s1 by simp
  have "r \<in> set (files s2)"
    using files2 by simp
  then have rejected: "upload_file P E2 s2 p2 n2 = (Inl DuplicateContentError, s2)"
    using upload_file_duplicate_mem [OF src2, of r E2 n2] hr same by simp
  have "filter (\<lambda>r. file_hash r = Some (md5_hexdigest P b2)) (files s2) = [r]"
    using select_by_hash_None_filter [OF none] hr same files2 by simp
  with rejected show ?thesis by simp
qed

theorem duplicate_upload_rejected_witness:
  "upload_file demo_platform (demo_env ''u1'' ''2024-05-01T10:00:00'') demo_world ''/in/a.txt'' None
     = (Inr (''u1'', ''a.txt''), demo_world1)
   \<and> read_bytes demo_platform (fs demo_world) ''/in/a.txt'' = Inr [1, 2, 3]
   \<and> read_bytes demo_platform (fs demo_world1) ''/in/b.txt'' = Inr [1, 2, 3]
   \<and> upload_file demo_platform (demo_env ''u2'' ''2024-05-01T10:00:05'') demo_world1
        ''/in/b.txt'' (Some ''renamed.bin'') = (Inl DuplicateContentError, demo_world1)
   \<and> length (filter (\<lambda>r. file_hash r = Some (md5_hexdigest demo_platform [1, 2, 3]))
               (files demo_world1)) = 1"
proof -
  have a: "read_bytes demo_platform (fs demo_world) ''/in/a.txt'' = Inr [1, 2, 3]"
    using demo_read_a by (simp add: demo_world_def)
  have b: "read_bytes demo_platform (fs demo_world1) ''/in/b.txt'' = Inr [1, 2, 3]"
    using demo_read_b by (simp add: demo_world1_fs)
  from duplicate_upload_rejected [OF demo_upload1 a refl b refl] demo_upload1 a b
  show ?thesis by blast
qed

subsection \<open>Writing a file\<close>

text \<open>\<^verbatim>\<open>os.makedirs\<close> only adds directories, and the directory it was asked for exists afterwards.\<close>

lemma mkdirs_keeps:
  "mkdirs fsys done todo = Inr fsys' \<Longrightarrow> fsys q = Some x \<Longrightarrow> fsys' q = Some x"
proof (induction todo arbitrary: fsys "done")
  case Nil
  then show ?case by simp
next
  case (Cons c todo)
  show ?case
  proof (cases "fsys (done @ [c])")
    case None
    with Cons.prems have "mkdirs (fsys(done @ [c] \<mapsto> Dir)) (done @ [c]) todo = Inr fsys'"
      by simp
    moreover have "(fsys(done @ [c] \<mapsto> Dir)) q = Some x"
      using None Cons.prems(2) by auto
    ultimately show ?thesis by (rule Cons.IH)
  next
    case (Some n)
    with Cons.prems have "mkdirs fsys (done @ [c]) todo = Inr fsys'"
      by (cases n) simp_all
    then show ?thesis using Cons.prems(2) by (rule Cons.IH)
  qed
qed

lemma mkdirs_is_dir:
  "mkdirs fsys done todo = Inr fsys' \<Longrightarrow> is_dir fsys done \<Longrightarrow> is_dir fsys' (done @ todo)"
proof (induction todo arbitrary: fsys "done")
  case Nil
  then show ?case by simp
next
  case (Cons c todo)
  show ?case
  proof (cases "fsys (done @ [c])")
    case None
    with Cons.prems have "mkdirs (fsys(done @ [c] \<mapsto> Dir)) (done @ [c]) todo = Inr fsys'"
      by simp
    moreover have "is_dir (fsys(done @ [c] \<mapsto> Dir)) (done @ [c])"
      by (simp add: is_dir_def lookup_def)
    ultimately have "is_dir fsys' ((done @ [c]) @ todo)" by (rule Cons.IH)
    then show ?thesis by simp
  next
    case (Some n)
    with Cons.prems have m: "mkdirs fsys (done @ [c]) todo = Inr fsys'" and "n = Dir"
      by (cases n; simp)+
    with Some have "is_dir fsys (done @ [c])"
      by (simp add: is_dir_def lookup_def)
    with m have "is_dir fsys' ((done @ [c]) @ todo)" by (rule Cons.IH)
    then show ?thesis by simp
  qed
qed

lemma mkdirs_error: "mkdirs fsys done todo = Inl e \<Longrightarrow> e = OSError"
  by (induction fsys "done" todo rule: mkdirs.induct)
    (auto split: option.splits node.splits)

lemma write_bytes_ok:
  assumes "can_open P fsys name"
  shows "\<exists>fsys'. write_bytes P fsys name data None = (Inr (), fsys')
           \<and> read_bytes P fsys' name = Inr data"
proof -
  from assms obtain p where p: "resolve P name = Some p"
    and nd: "\<not> is_dir fsys p" and par: "is_dir fsys (butlast p)"
    by (auto simp: can_open_def split: option.splits)
  from nd have "p \<noteq> []" by (auto simp: is_dir_def lookup_def)
  with p nd par show ?thesis
    by (simp add: write_bytes_def read_bytes_def lookup_def)
qed


text \<open>A write that cannot open its file leaves the file system as it is.\<close>

lemma write_bytes_refused:
  "\<not> can_open P fsys name \<Longrightarrow> write_bytes P fsys name data fault = (Inl OSError, fsys)"
  by (auto simp: can_open_def write_bytes_def split: option.splits)

lemma write_out_ok:
  assumes "can_write P fsys dest"
  shows "\<exists>fsys'. write_out P fsys dest data None = (Inr (), fsys')
           \<and> read_bytes P fsys' dest = Inr data"
proof -
  from assms obtain f1 where m: "makedirs P fsys (or_else (Some (dirname P dest)) ''.'') = Inr f1"
    and o: "can_open P f1 dest"
    by (auto simp: can_write_def split: sum.splits)
  from write_bytes_ok [OF o, of data] m show ?thesis
    by (simp add: write_out_def)
qed


text \<open>Without a writable destination the write fails, whatever the fault.\<close>

lemma write_out_refused:
  assumes "\<not> can_write P fsys dest"
  shows "fst (write_out P fsys dest data fault) = Inl OSError"
proof (cases "makedirs P fsys (or_else (Some (dirname P dest)) ''.'')")
  case (Inl e)
  then have "e = OSError"
    by (auto simp: makedirs_def split: option.splits dest: mkdirs_error)
  with Inl show ?thesis by (simp add: write_out_def)
next
  case (Inr f1)
  with assms have "\<not> can_open P f1 dest"
    by (simp add: can_write_def)
  with Inr show ?thesis
    by (simp add: write_out_def write_bytes_refused)
qed

text \<open>
  On the demo platform the empty string and a path below a regular file are not
  writable destinations, and a path in a directory yet to be made is.
\<close>

lemma demo_cannot_write_empty: "\<not> can_write demo_platform demo_fs ''''"
  by (simp add: fs_defs demo_defs)

lemma demo_cannot_write_below_file:
  "\<not> can_write demo_platform demo_fs ''/in/a.txt/sub/x.bin''"
  by (simp add: fs_defs demo_defs demo_fs_def)


subsection \<open>What \<^verbatim>\<open>download_file\<close> does\<close>

lemma download_file_blob:
  assumes "select_by_cloud_id (files s) cid = Some r" and "file_data r = Some blob"
  shows "download_file P E s cid dest =
           (case write_out P (fs s) dest blob (io_fault E) of
              (Inl e, fsys') \<Rightarrow> (Inl e, s\<lparr>fs := fsys'\<rparr>)
            | (Inr _, fsys') \<Rightarrow> (Inr True, s\<lparr>fs := fsys'\<rparr>))"
  using assms by (simp add: download_file_def local_mode_def LOCAL_ONLY_def)

lemma download_file_backfill:
  assumes "select_by_cloud_id (files s) cid = Some r" and "file_data r = None"
    and "local_path r = Some src" and "src \<noteq> []"
    and "read_bytes P (fs s) src = Inr data"
  shows "download_file P E s cid dest =
           (case write_out P (fs s) dest data (io_fault E) of
              (Inl e, fsys') \<Rightarrow> (Inl e, s\<lparr>fs := fsys'\<rparr>)
            | (Inr _, fsys') \<Rightarrow>
                (Inr True,
                 s\<lparr>fs := fsys', files := update_file_data (files s) cid data (utcnow1 E)\<rparr>))"
  using assms read_bytes_exists [OF assms(5)]
  by (simp add: download_file_def local_mode_def LOCAL_ONLY_def backfill_source_def)

lemma download_blob_rows:
  assumes "select_by_cloud_id (files s) cid = Some r" and "file_data r = Some blob"
  shows "files (snd (download_file P E s cid dest)) = files s"
  by (auto simp: download_file_blob [OF assms] split: prod.splits sum.splits)

text \<open>A fetch leaves the table as it is or runs the one \<^verbatim>\<open>UPDATE\<close>, after a lookup that found no bytes.\<close>

lemma download_file_files:
  "files (snd (download_file P E s cid dest)) = files s
   \<or> (\<exists>r data. select_by_cloud_id (files s) cid = Some r \<and> file_data r = None
         \<and> snd (download_file P E s cid dest)
             = s\<lparr>fs := fs (snd (download_file P E s cid dest)),
                  files := update_file_data (files s) cid data (utcnow1 E)\<rparr>)"
  by (auto simp: download_file_def split: option.splits sum.splits prod.splits)

lemma find_append_None:
  "find Q xs = None \<Longrightarrow> find Q (xs @ ys) = find Q ys"
  by (induction xs) (auto split: if_splits)

lemma find_append_Some:
  "find Q xs = Some r \<Longrightarrow> find Q (xs @ ys) = Some r"
  by (induction xs) (auto split: if_splits)

lemma find_filter_keep:
  "find Q xs = Some r \<Longrightarrow> keep r \<Longrightarrow> find Q (filter keep xs) = Some r"
  by (induction xs) (auto split: if_splits)


lemma select_by_cloud_id_update_other:
  assumes "select_by_cloud_id rs cid = Some r" and "cid' \<noteq> cid"
  shows "select_by_cloud_id (update_file_data rs cid' data now) cid = Some r"
  using assms
  by (induction rs) (auto simp: select_by_cloud_id_def update_file_data_def split: if_splits)

text \<open>When the remote id names one record only, the lookup returns that record.\<close>

lemma select_by_cloud_id_unique:
  assumes uniq: "unique_remote_ids rs" and mem: "r \<in> set rs" and cid: "cloud_id r = Some cid"
  shows "select_by_cloud_id rs cid = Some r"
proof -
  have "find (\<lambda>r. cloud_id r = Some cid) rs \<noteq> None"
    using mem cid by (auto simp: find_None_iff)
  then obtain r' where f: "find (\<lambda>r. cloud_id r = Some cid) rs = Some r'" by auto
  then have r': "r' \<in> set rs" "cloud_id r' = Some cid"
    by (auto simp: find_Some_iff)
  have "inj_on cloud_id (set (filter (\<lambda>r. cloud_id r \<noteq> None) rs))"
    using uniq by (simp add: unique_remote_ids_def distinct_map)
  moreover have "r \<in> set (filter (\<lambda>r. cloud_id r \<noteq> None) rs)"
    "r' \<in> set (filter (\<lambda>r. cloud_id r \<noteq> None) rs)"
    using mem cid r' by auto
  moreover have "cloud_id r' = cloud_id r"
    using cid r'(2) by simp
  ultimately have "r' = r"
    by (auto elim: inj_onD)
  with f show ?thesis by (simp add: select_by_cloud_id_def)
qed

text \<open>
  When no two rows share a remote id, no fetch, of whatever id, touches a row that
  holds its bytes.
\<close>

lemma download_file_keeps_rows_with_bytes:
  assumes mem: "r \<in> set (files s)" and blob: "file_data r \<noteq> None"
    and uniq: "unique_remote_ids (files s)"
  shows "r \<in> set (files (snd (download_file P E s cid dest)))"
proof -
  from download_file_files [of P E s cid dest] show ?thesis
  proof
    assume "files (snd (download_file P E s cid dest)) = files s"
    with mem show ?thesis by simp
  next
    assume "\<exists>r0 data. select_by_cloud_id (files s) cid = Some r0 \<and> file_data r0 = None
         \<and> snd (download_file P E s cid dest)
             = s\<lparr>fs := fs (snd (download_file P E s cid dest)),
                  files := update_file_data (files s) cid data (utcnow1 E)\<rparr>"
    then obtain r0 data where r0: "select_by_cloud_id (files s) cid = Some r0"
      and null: "file_data r0 = None"
      and eq: "snd (download_file P E s cid dest)
             = s\<lparr>fs := fs (snd (download_file P E s cid dest)),
                  files := update_file_data (files s) cid data (utcnow1 E)\<rparr>"
      by blast
    have "cloud_id r \<noteq> Some cid"
    proof
      assume "cloud_id r = Some cid"
      with select_by_cloud_id_unique [OF uniq mem] r0 have "r0 = r" by simp
      with null blob show False by simp
    qed
    then have "r \<in> set (update_file_data (files s) cid data (utcnow1 E))"
      using mem by (force simp: update_file_data_def)
    moreover have "files (snd (download_file P E s cid dest))
                     = update_file_data (files s) cid data (utcnow1 E)"
      by (subst eq) simp
    ultimately show ?thesis by simp
  qed
qed

text \<open>The bytes of the record found reach the destination, or what the fault lets through.\<close>

lemma download_file_delivers:
  assumes look: "select_by_cloud_id (files s) cid = Some r"
    and avail: "file_data r = Some data
                \<or> (file_data r = None \<and> local_path r = Some src \<and> src \<noteq> []
                    \<and> read_bytes P (fs s) src = Inr data)"
    and w: "can_write P (fs s) dest"
    and ok: "io_fault E = None"
  shows "fst (download_file P E s cid dest) = Inr True
         \<and> read_bytes P (fs (snd (download_file P E s cid dest))) dest = Inr data"
proof -
  obtain f1 where f1: "write_out P (fs s) dest data None = (Inr (), f1)"
    and f1d: "read_bytes P f1 dest = Inr data"
    using write_out_ok [OF w] by blast
  from avail show ?thesis
  proof
    assume "file_data r = Some data"
    from download_file_blob [OF look this, of P E dest] f1 f1d ok
    show ?thesis by simp
  next
    assume a: "file_data r = None \<and> local_path r = Some src \<and> src \<noteq> []
                 \<and> read_bytes P (fs s) src = Inr data"
    then have "download_file P E s cid dest =
           (case write_out P (fs s) dest data (io_fault E) of
              (Inl e, fsys') \<Rightarrow> (Inl e, s\<lparr>fs := fsys'\<rparr>)
            | (Inr _, fsys') \<Rightarrow>
                (Inr True,
                 s\<lparr>fs := fsys', files := update_file_data (files s) cid data (utcnow1 E)\<rparr>))"
      using download_file_backfill [OF look, of src P data E dest] by blast
    with f1 f1d ok show ?thesis by simp
  qed
qed


text \<open>Where the destination cannot be written, the fetch of an existing record fails and the table is untouched.\<close>

lemma download_file_refused:
  assumes look: "select_by_cloud_id (files s) cid = Some r"
    and w: "\<not> can_write P (fs s) dest"
  shows "\<exists>e. fst (download_file P E s cid dest) = Inl e"
    and "files (snd (download_file P E s cid dest)) = files s"
proof -
  have wr: "\<exists>f. write_out P (fs s) dest data (io_fault E) = (Inl OSError, f)" for data
    using write_out_refused [OF w, of data "io_fault E"]
    by (cases "write_out P (fs s) dest data (io_fault E)") simp
  show "\<exists>e. fst (download_file P E s cid dest) = Inl e"
  proof (cases "file_data r")
    case (Some blob)
    from wr [of blob] download_file_blob [OF look Some, of P E dest]
    show ?thesis by auto
  next
    case None
    show ?thesis
    proof (cases "backfill_source P (fs s) r")
      case n: None
      with look None show ?thesis
        by (simp add: download_file_def local_mode_def LOCAL_ONLY_def)
    next
      case (Some src)
      show ?thesis
      proof (cases "read_bytes P (fs s) src")
        case (Inl e)
        with look None Some show ?thesis
          by (simp add: download_file_def local_mode_def LOCAL_ONLY_def)
      next
        case (Inr data)
        from wr [of data] look None Some Inr show ?thesis
          by (auto simp: download_file_def local_mode_def LOCAL_ONLY_def)
      qed
    qed
  qed
  show "files (snd (download_file P E s cid dest)) = files s"
  proof (cases "file_data r")
    case (Some blob)
    with look show ?thesis by (rule download_blob_rows)
  next
    case None
    show ?thesis
    proof (cases "backfill_source P (fs s) r")
      case n: None
      with look None show ?thesis
        by (simp add: download_file_def local_mode_def LOCAL_ONLY_def)
    next
      case (Some src)
      show ?thesis
      proof (cases "read_bytes P (fs s) src")
        case (Inl e)
        with look None Some show ?thesis
          by (simp add: download_file_def local_mode_def LOCAL_ONLY_def)
      next
        case (Inr data)
        from wr [of data] look None Some Inr show ?thesis
          by (auto simp: download_file_def local_mode_def LOCAL_ONLY_def)
      qed
    qed
  qed
qed

lemma demo_select_u1: "select_by_cloud_id (files demo_world1) ''u1'' = Some demo_row1"
  by (simp add: demo_world1_files select_by_cloud_id_def) (simp add: demo_row1_def demo_row_def)


lemma orphan_select: "select_by_cloud_id (files orphan_world) ''c9'' = Some legacy_row"
  by (simp add: orphan_world_def legacy_world_def select_by_cloud_id_def legacy_row_def)

subsection \<open>Fetch of a record that holds its bytes\<close>

text \<open>
  C7. When the record that \<^verbatim>\<open>download_file\<close> looks up by its remote id has a
  non-null \<^verbatim>\<open>file_data\<close>, the call changes no row of the table, whatever the
  destination and whether or not the write succeeds: the rows, the rowid counter and
  the configuration are the same afterwards, and the lookup still returns the same
  record, with every field as before (\<^verbatim>\<open>file_data\<close> and \<^verbatim>\<open>last_sync\<close> included).
\<close>

theorem download_blob_present_unchanged:
  assumes "select_by_cloud_id (files s) cid = Some r" and "file_data r = Some blob"
  shows "files (snd (download_file P E s cid dest)) = files s
         \<and> seq (snd (download_file P E s cid dest)) = seq s
         \<and> config (snd (download_file P E s cid dest)) = config s
         \<and> select_by_cloud_id (files (snd (download_file P E s cid dest))) cid = Some r"
  using assms
  by (auto simp: download_file_blob [OF assms] split: prod.splits sum.splits)

theorem download_blob_present_unchanged_witness:
  "select_by_cloud_id (files demo_world1) ''u1'' = Some demo_row1
   \<and> file_data demo_row1 = Some [1, 2, 3]
   \<and> files (snd (download_file demo_platform faulty_env demo_world1 ''u1'' ''/out/a.txt''))
       = files demo_world1
   \<and> seq (snd (download_file demo_platform faulty_env demo_world1 ''u1'' ''/out/a.txt''))
       = seq demo_world1
   \<and> config (snd (download_file demo_platform faulty_env demo_world1 ''u1'' ''/out/a.txt''))
       = config demo_world1
   \<and> select_by_cloud_id
        (files (snd (download_file demo_platform faulty_env demo_world1 ''u1'' ''/out/a.txt'')))
        ''u1'' = Some demo_row1"
proof -
  have b: "file_data demo_row1 = Some [1, 2, 3]" by (simp add: demo_row1_def demo_row_def)
  from download_blob_present_unchanged [OF demo_select_u1 b] demo_select_u1 b
  show ?thesis by blast
qed

subsection \<open>Create, then fetch\<close>

text \<open>
  The rule that a remote id names one record is kept by every action, provided each
  upload draws from \<^verbatim>\<open>uuid.uuid4()\<close> an id that no row carries.
\<close>

lemma cloud_id_update_file_data:
  "map cloud_id (update_file_data rs cid data now) = map cloud_id rs"
  by (induction rs) (simp_all add: update_file_data_def)

lemma unique_remote_ids_map:
  "map cloud_id rs' = map cloud_id rs \<Longrightarrow> unique_remote_ids rs' = unique_remote_ids rs"
proof -
  assume eq: "map cloud_id rs' = map cloud_id rs"
  have "map cloud_id (filter (\<lambda>r. cloud_id r \<noteq> None) xs) = filter (\<lambda>c. c \<noteq> None) (map cloud_id xs)"
    for xs :: "row list"
    by (induction xs) simp_all
  with eq show ?thesis by (simp add: unique_remote_ids_def)
qed

lemma unique_remote_ids_filter:
  "unique_remote_ids rs \<Longrightarrow> unique_remote_ids (filter keep rs)"
proof -
  assume "unique_remote_ids rs"
  then have "distinct (map cloud_id (filter keep (filter (\<lambda>r. cloud_id r \<noteq> None) rs)))"
    unfolding unique_remote_ids_def by (rule distinct_map_filter)
  moreover have "filter keep (filter (\<lambda>r. cloud_id r \<noteq> None) rs)
                   = filter (\<lambda>r. cloud_id r \<noteq> None) (filter keep rs)"
    by (induction rs) auto
  ultimately show ?thesis by (simp add: unique_remote_ids_def)
qed

lemma unique_remote_ids_snoc:
  assumes "unique_remote_ids rs" and "cloud_id r = Some cid"
    and "\<And>x. x \<in> set rs \<Longrightarrow> cloud_id x \<noteq> Some cid"
  shows "unique_remote_ids (rs @ [r])"
  using assms by (auto simp: unique_remote_ids_def)

lemma step_keeps_unique_ids:
  assumes uniq: "unique_remote_ids (files s)"
    and fresh: "\<And>E p n x. a = Upload E p n \<Longrightarrow> x \<in> set (files s) \<Longrightarrow> cloud_id x \<noteq> Some (uuid4 E)"
  shows "unique_remote_ids (files (step P s a))"
proof (cases a)
  case (Upload E p n)
  show ?thesis
  proof (cases "upload_file P E s p n")
    case (Pair out s')
    show ?thesis
    proof (cases out)
      case (Inl e)
      with Pair have "s' = s"
        by (auto simp: upload_file_def Let_def
            split: if_splits sum.splits option.splits prod.splits)
      with Pair uniq show ?thesis by (simp add: Upload step_def)
    next
      case (Inr res)
      with Pair upload_file_Inr [of P E s p n res s'] obtain r where
        s': "files s' = files s @ [r]" and c: "cloud_id r = Some (fst res)"
        by auto
      from Pair Inr have "fst res = uuid4 E"
        by (auto simp: upload_file_def Let_def choose_cloud_id_def local_mode_def LOCAL_ONLY_def
            split: if_splits sum.splits option.splits)
      with c have "cloud_id r = Some (uuid4 E)" by simp
      with uniq have "unique_remote_ids (files s @ [r])"
        using fresh [OF Upload] by (rule unique_remote_ids_snoc)
      with Pair s' show ?thesis by (simp add: Upload step_def)
    qed
  qed
next
  case (Download E cid dest)
  from download_file_files [of P E s cid dest] show ?thesis
  proof
    assume "files (snd (download_file P E s cid dest)) = files s"
    with uniq show ?thesis by (simp add: Download step_def)
  next
    assume "\<exists>r data. select_by_cloud_id (files s) cid = Some r \<and> file_data r = None
         \<and> snd (download_file P E s cid dest)
             = s\<lparr>fs := fs (snd (download_file P E s cid dest)),
                  files := update_file_data (files s) cid data (utcnow1 E)\<rparr>"
    then obtain data where eq: "snd (download_file P E s cid dest)
             = s\<lparr>fs := fs (snd (download_file P E s cid dest)),
                  files := update_file_data (files s) cid data (utcnow1 E)\<rparr>"
      by blast
    have "files (snd (download_file P E s cid dest))
            = update_file_data (files s) cid data (utcnow1 E)"
      by (subst eq) simp
    with uniq show ?thesis
      by (simp add: Download step_def
          unique_remote_ids_map [OF cloud_id_update_file_data])
  qed
next
  case (Remove i)
  with uniq show ?thesis
    by (simp add: step_def remove_local_file_def unique_remote_ids_filter)
next
  case (Outside fsys)
  with uniq show ?thesis by (simp add: step_def)
qed

text \<open>
  A record that holds its bytes, and that the lookup on its remote id finds, stays
  so through every action that does not delete it.
\<close>

lemma step_keeps_record:
  assumes look: "select_by_cloud_id (files s) cid = Some r"
    and blob: "file_data r = Some b"
    and kept: "a \<noteq> Remove (row_id r)"
  shows "select_by_cloud_id (files (step P s a)) cid = Some r"
proof (cases a)
  case (Upload E p n)
  from upload_file_files [of P E s p n] look show ?thesis
    by (auto simp: Upload step_def select_by_cloud_id_def find_append_Some)
next
  case (Download E cid' dest)
  show ?thesis
  proof (cases "cid' = cid")
    case True
    with download_blob_rows [OF look blob, of P E dest] look show ?thesis
      by (simp add: Download step_def)
  next
    case False
    from download_file_files [of P E s cid' dest] show ?thesis
    proof
      assume "files (snd (download_file P E s cid' dest)) = files s"
      with look show ?thesis by (simp add: Download step_def)
    next
      assume "\<exists>r0 data. select_by_cloud_id (files s) cid' = Some r0 \<and> file_data r0 = None
         \<and> snd (download_file P E s cid' dest)
             = s\<lparr>fs := fs (snd (download_file P E s cid' dest)),
                  files := update_file_data (files s) cid' data (utcnow1 E)\<rparr>"
      then obtain data where eq: "snd (download_file P E s cid' dest)
             = s\<lparr>fs := fs (snd (download_file P E s cid' dest)),
                  files := update_file_data (files s) cid' data (utcnow1 E)\<rparr>"
        by blast
      have "files (snd (download_file P E s cid' dest))
              = update_file_data (files s) cid' data (utcnow1 E)"
        by (subst eq) simp
      with select_by_cloud_id_update_other [OF look False] show ?thesis
        by (simp add: Download step_def)
    qed
  qed
next
  case (Remove i)
  with kept have "row_id r \<noteq> i" by auto
  with look show ?thesis
    by (simp add: Remove step_def remove_local_file_def select_by_cloud_id_def
        find_filter_keep)
next
  case (Outside fsys)
  with look show ?thesis by (simp add: step_def)
qed

lemma run_keeps_record:
  assumes "select_by_cloud_id (files s) cid = Some r"
    and "file_data r = Some b"
    and "Remove (row_id r) \<notin> set acts"
  shows "select_by_cloud_id (files (run P s acts)) cid = Some r"
  using assms
proof (induction acts arbitrary: s)
  case Nil
  then show ?case by (simp add: run_def)
next
  case (Cons a acts)
  from Cons.prems have "a \<noteq> Remove (row_id r)" by auto
  with Cons.prems(1,2) have "select_by_cloud_id (files (step P s a)) cid = Some r"
    by (rule step_keeps_record)
  moreover from Cons.prems(3) have "Remove (row_id r) \<notin> set acts" by simp
  ultimately have "select_by_cloud_id (files (run P (step P s a) acts)) cid = Some r"
    using Cons.prems(2) by (intro Cons.IH)
  then show ?case by (simp add: run_def)
qed

text \<open>
  C2. Create then fetch is a round trip on content. A record is created by a
  successful upload of a file holding the bytes \<open>b\<close>, and its remote id names no
  other record of the store. After any history of uploads, fetches, deletions of
  other records and changes to the file system, \<^verbatim>\<open>download_file\<close> on the record's
  remote id succeeds, and reading the destination then gives exactly \<open>b\<close>, provided
  the destination can be written and no I/O failure occurs.
\<close>

theorem fetch_returns_uploaded_bytes:
  assumes up: "upload_file P E1 s src n = (Inr res, s1)"
    and content: "read_bytes P (fs s) src = Inr b"
    and created: "files s1 = files s @ [r]"
    and uniq: "unique_remote_ids (files s1)"
    and kept: "Remove (row_id r) \<notin> set acts"
    and w: "can_write P (fs (run P s1 acts)) dest"
    and ok: "io_fault E2 = None"
  shows "\<exists>s3. download_file P E2 (run P s1 acts) (fst res) dest = (Inr True, s3)
              \<and> read_bytes P (fs s3) dest = Inr b"
proof -
  from upload_file_Inr [OF up] content created have
    cid: "cloud_id r = Some (fst res)" and blob: "file_data r = Some b"
    by auto
  have "r \<in> set (files s1)"
    using created by simp
  with uniq have "select_by_cloud_id (files s1) (fst res) = Some r"
    using cid by (rule select_by_cloud_id_unique)
  then have look: "select_by_cloud_id (files (run P s1 acts)) (fst res) = Some r"
    using blob kept by (rule run_keeps_record)
  from download_file_delivers [OF look disjI1 [OF blob] w ok]
  show ?thesis
    by (cases "download_file P E2 (run P s1 acts) (fst res) dest") auto
qed

text \<open>
  The history of the witness: a second file is uploaded, so that the record is not
  the last row, the second record is fetched, and then the source file disappears.
\<close>

theorem fetch_returns_uploaded_bytes_witness:
  "upload_file demo_platform (demo_env ''u1'' ''2024-05-01T10:00:00'') demo_world ''/in/a.txt'' None
     = (Inr (''u1'', ''a.txt''), demo_world1)
   \<and> read_bytes demo_platform (fs demo_world) ''/in/a.txt'' = Inr [1, 2, 3]
   \<and> files demo_world1 = files demo_world @ [demo_row1]
   \<and> unique_remote_ids (files demo_world1)
   \<and> (\<exists>s3. download_file demo_platform (demo_env ''u5'' ''2024-05-01T10:00:09'')
               (run demo_platform demo_world1
                  [Upload (demo_env ''u2'' ''2024-05-01T10:00:05'') ''/in/c.txt'' None,
                   Download (demo_env ''u3'' ''2024-05-01T10:00:06'') ''u2'' ''/out/c.txt'',
                   Outside (demo_fs([''in'', ''a.txt''] := None))])
               (fst (''u1'', ''a.txt'')) ''/out/a.txt'' = (Inr True, s3)
            \<and> read_bytes demo_platform (fs s3) ''/out/a.txt'' = Inr [1, 2, 3])"
proof -
  let ?acts = "[Upload (demo_env ''u2'' ''2024-05-01T10:00:05'') ''/in/c.txt'' None,
                Download (demo_env ''u3'' ''2024-05-01T10:00:06'') ''u2'' ''/out/c.txt'',
                Outside (demo_fs([''in'', ''a.txt''] := None))]"
  have c: "read_bytes demo_platform (fs demo_world) ''/in/a.txt'' = Inr [1, 2, 3]"
    using demo_read_a by (simp add: demo_world_def)
  have cr: "files demo_world1 = files demo_world @ [demo_row1]"
    by (simp add: demo_world1_def demo_world_def)
  have u: "unique_remote_ids (files demo_world1)"
    by (simp add: unique_remote_ids_def demo_world1_files)
  have k: "Remove (row_id demo_row1) \<notin> set ?acts"
    by simp
  have "fs (run demo_platform demo_world1 ?acts) = demo_fs([''in'', ''a.txt''] := None)"
    by (simp add: run_def step_def)
  moreover have "can_write demo_platform (demo_fs([''in'', ''a.txt''] := None)) ''/out/a.txt''"
    by (simp add: fs_defs demo_defs demo_fs_def)
  ultimately have w: "can_write demo_platform (fs (run demo_platform demo_world1 ?acts)) ''/out/a.txt''"
    by simp
  have f: "io_fault (demo_env ''u5'' ''2024-05-01T10:00:09'') = None"
    by (simp add: demo_env_def)
  from fetch_returns_uploaded_bytes [OF demo_upload1 c cr u k w f] demo_upload1 c cr u
  show ?thesis by blast
qed

subsection \<open>Fetch of a record without bytes\<close>



text \<open>
  C4. The record found has a null \<^verbatim>\<open>file_data\<close> and its \<^verbatim>\<open>local_path\<close>, if it has
  one, does not exist. Then the fetch fails with \<open>UnrecoverableContentError\<close> and
  the world is exactly as before: no row and no file has changed.
\<close>

theorem download_unrecoverable:
  assumes "select_by_cloud_id (files s) cid = Some r" and "file_data r = None"
    and "\<And>src. local_path r = Some src \<Longrightarrow> \<not> path_exists P (fs s) src"
  shows "download_file P E s cid dest = (Inl UnrecoverableContentError, s)"
proof -
  have "backfill_source P (fs s) r = None"
    using assms(3) by (auto simp: backfill_source_def split: option.splits)
  with assms(1,2) show ?thesis
    by (simp add: download_file_def local_mode_def LOCAL_ONLY_def)
qed

theorem download_unrecoverable_witness:
  "select_by_cloud_id (files orphan_world) ''c9'' = Some legacy_row
   \<and> file_data legacy_row = None
   \<and> local_path legacy_row = Some ''/in/a.txt''
   \<and> \<not> path_exists demo_platform (fs orphan_world) ''/in/a.txt''
   \<and> download_file demo_platform (demo_env ''u4'' ''2024-05-03T00:00:00'') orphan_world
        ''c9'' ''/out/a.txt'' = (Inl UnrecoverableContentError, orphan_world)"
proof -
  have n: "file_data legacy_row = None" and p: "local_path legacy_row = Some ''/in/a.txt''"
    by (simp_all add: legacy_row_def)
  have gone: "\<not> path_exists demo_platform (fs orphan_world) ''/in/a.txt''"
    by (simp add: orphan_world_def fs_defs demo_defs demo_fs_def)
  have "\<And>src. local_path legacy_row = Some src
          \<Longrightarrow> \<not> path_exists demo_platform (fs orphan_world) src"
    using p gone by simp
  from download_unrecoverable [OF orphan_select n this] n p gone orphan_select
  show ?thesis by blast
qed

subsection \<open>Listing\<close>

lemma filter_key_singleton:
  assumes "distinct (map f xs)" and "k \<in> set xs"
  shows "filter (\<lambda>x. f k = f x) xs = [k]"
  using assms
proof (induction xs)
  case Nil
  then show ?case by simp
next
  case (Cons a xs)
  show ?case
  proof (cases "k = a")
    case True
    have "filter (\<lambda>x. f a = f x) xs = []"
      using Cons.prems(1) by (auto simp: filter_empty_conv)
    with True show ?thesis by simp
  next
    case False
    with Cons.prems have k: "k \<in> set xs" and d: "distinct (map f xs)" and "f a \<noteq> f k"
      by auto
    with Cons.IH show ?thesis by auto
  qed
qed

text \<open>Sorting the reversal of a list whose keys strictly increase gives the list back.\<close>

lemma sort_key_rev_strict:
  assumes "sorted_wrt (\<lambda>a b. f a < f b) xs"
  shows "sort_key f (rev xs) = xs"
proof -
  have d: "distinct (map f xs)"
    using assms by (induction xs) auto
  have srt: "sorted (map f xs)"
    using assms by (induction xs) (auto simp: less_imp_le)
  have flt: "filter (\<lambda>x. f k = f x) xs = filter (\<lambda>x. f k = f x) (rev xs)"
    if k: "k \<in> set xs" for k
  proof -
    have "filter (\<lambda>x. f k = f x) (rev xs) = rev (filter (\<lambda>x. f k = f x) xs)"
      by (simp add: rev_filter)
    then show ?thesis
      using filter_key_singleton [OF d k] by simp
  qed
  have "mset xs = mset (rev xs)" by simp
  then show ?thesis
    using flt srt by (rule properties_for_sort_key)
qed

lemma get_local_files_mset: "mset (get_local_files s) = mset (files s)"
  by (simp add: get_local_files_def)

lemma get_local_files_sorted:
  "sorted_wrt (\<lambda>a b. upload_date b \<le> upload_date a) (get_local_files s)"
proof -
  have "sorted (map upload_date (sort_key upload_date (rev (files s))))"
    by simp
  then have "sorted_wrt (\<lambda>a b. upload_date a \<le> upload_date b)
               (sort_key upload_date (rev (files s)))"
    by (simp add: sorted_map)
  then show ?thesis
    by (simp add: get_local_files_def sorted_wrt_rev)
qed

text \<open>Rows with the same \<^verbatim>\<open>upload_date\<close> are listed in the order of their rowids.\<close>

lemma get_local_files_ties:
  "filter (\<lambda>r. upload_date r = k) (get_local_files s)
     = filter (\<lambda>r. upload_date r = k) (files s)"
proof -
  have "filter (\<lambda>r. upload_date r = k) (get_local_files s)
          = rev (filter (\<lambda>r. upload_date r = k) (sort_key upload_date (rev (files s))))"
    by (simp add: get_local_files_def rev_filter)
  also have "\<dots> = rev (filter (\<lambda>r. upload_date r = k) (rev (files s)))"
    by (simp only: sort_key_stable)
  also have "\<dots> = filter (\<lambda>r. upload_date r = k) (files s)"
    by (simp add: rev_filter)
  finally show ?thesis .
qed

lemma get_local_files_remove:
  "in_int64 i \<Longrightarrow>
     get_local_files (snd (remove_local_file s i))
       = filter (\<lambda>r. row_id r \<noteq> i) (get_local_files s)"
  by (simp add: get_local_files_def remove_local_file_def filter_sort rev_filter
      flip: rev_filter)

lemma get_local_files_upload:
  assumes "upload_file P E s p n = (Inr res, s1)"
  shows "\<exists>r. cloud_id r = Some (fst res) \<and> upload_date r = Some (utcnow1 E)
           \<and> mset (get_local_files s1) = add_mset r (mset (get_local_files s))"
proof -
  from upload_file_Inr [OF assms] obtain r where
    "s1 = s\<lparr>files := files s @ [r], seq := next_id s\<rparr>"
    "cloud_id r = Some (fst res)" "upload_date r = Some (utcnow1 E)"
    by blast
  then show ?thesis
    by (auto simp: get_local_files_mset)
qed

text \<open>A fetch changes neither which rows are listed nor their order.\<close>

lemma insort_key_map_same_key:
  assumes "\<And>x. f (g x) = f x"
  shows "insort_key f (g x) (map g ys) = map g (insort_key f x ys)"
  by (induction ys) (simp_all add: assms)

lemma sort_key_map_same_key:
  assumes "\<And>x. f (g x) = f x"
  shows "sort_key f (map g xs) = map g (sort_key f xs)"
  by (induction xs) (simp_all add: insort_key_map_same_key [of f g, OF assms])

lemma get_local_files_update:
  "get_local_files (s\<lparr>fs := fsys, files := update_file_data (files s) cid data now\<rparr>)
     = update_file_data (get_local_files s) cid data now"
proof -
  let ?g = "\<lambda>r::row. if cloud_id r = Some cid
                 then r\<lparr>file_data := Some data, last_sync := Some now\<rparr> else r"
  have "upload_date (?g r) = upload_date r" for r :: row by simp
  then have "sort_key upload_date (map ?g xs) = map ?g (sort_key upload_date xs)"
    for xs :: "row list"
    by (rule sort_key_map_same_key [of upload_date ?g])
  then show ?thesis
    by (simp add: get_local_files_def update_file_data_def rev_map)
qed

lemma row_id_update_file_data:
  "map row_id (update_file_data rs cid data now) = map row_id rs"
  by (induction rs) (simp_all add: update_file_data_def)

lemma get_local_files_download:
  "map row_id (get_local_files (snd (download_file P E s cid dest)))
     = map row_id (get_local_files s)"
proof -
  from download_file_files [of P E s cid dest] show ?thesis
  proof
    assume "files (snd (download_file P E s cid dest)) = files s"
    then show ?thesis by (simp add: get_local_files_def)
  next
    assume "\<exists>r data. select_by_cloud_id (files s) cid = Some r \<and> file_data r = None
         \<and> snd (download_file P E s cid dest)
         = s\<lparr>fs := fs (snd (download_file P E s cid dest)),
              files := update_file_data (files s) cid data (utcnow1 E)\<rparr>"
    then obtain data where "snd (download_file P E s cid dest)
         = s\<lparr>fs := fs (snd (download_file P E s cid dest)),
              files := update_file_data (files s) cid data (utcnow1 E)\<rparr>" by blast
    then have "get_local_files (snd (download_file P E s cid dest))
                 = update_file_data (get_local_files s) cid data (utcnow1 E)"
      using get_local_files_update by metis
    then show ?thesis by (simp add: row_id_update_file_data)
  qed
qed

lemmas row_defs = demo_row1_def demo_row_def

text \<open>
  C6, as the code has it. \<^verbatim>\<open>get_local_files\<close> returns every row of the table, each
  exactly once, ordered by \<^verbatim>\<open>upload_date\<close> descending, with rows of equal
  \<^verbatim>\<open>upload_date\<close> in the order of their creation. When the creation times strictly
  increase from one create to the next, this is the insertion order reversed, most
  recently created first. The result is a function of the table alone, so two calls
  with no create or delete in between return the same sequence, and a fetch in
  between leaves the sequence of listed ids as it was. A successful upload adds
  exactly its new row to the result, and \<^verbatim>\<open>remove_local_file\<close> removes exactly the
  rows with the given id from it.
\<close>

theorem get_local_files_by_upload_date:
  "mset (get_local_files s) = mset (files s)
   \<and> sorted_wrt (\<lambda>a b. upload_date b \<le> upload_date a) (get_local_files s)
   \<and> filter (\<lambda>r. upload_date r = k) (get_local_files s)
       = filter (\<lambda>r. upload_date r = k) (files s)
   \<and> (sorted_wrt (\<lambda>a b. upload_date a < upload_date b) (files s)
        \<longrightarrow> get_local_files s = rev (files s))
   \<and> (files s' = files s \<longrightarrow> get_local_files s' = get_local_files s)
   \<and> (upload_file P E s p n = (Inr res, s1)
        \<longrightarrow> (\<exists>r. cloud_id r = Some (fst res) \<and> upload_date r = Some (utcnow1 E)
               \<and> mset (get_local_files s1) = add_mset r (mset (get_local_files s))))
   \<and> (in_int64 i \<longrightarrow>
        get_local_files (snd (remove_local_file s i))
          = filter (\<lambda>r. row_id r \<noteq> i) (get_local_files s))
   \<and> map row_id (get_local_files (snd (download_file P E s cid dest)))
       = map row_id (get_local_files s)"
proof -
  have strict: "sorted_wrt (\<lambda>a b. upload_date a < upload_date b) (files s)
                  \<longrightarrow> get_local_files s = rev (files s)"
    by (simp add: get_local_files_def sort_key_rev_strict)
  have same: "files s' = files s \<longrightarrow> get_local_files s' = get_local_files s"
    by (simp add: get_local_files_def)
  show ?thesis
    using get_local_files_mset get_local_files_sorted get_local_files_ties strict same
      get_local_files_upload get_local_files_remove get_local_files_download
    by blast
qed

text \<open>
  The witness lists three rows. With rising timestamps the newest comes first; with
  the tied and set-back timestamps the two tied rows keep their order; deleting the
  second row of the rising table removes it from the list.
\<close>

theorem get_local_files_by_upload_date_witness:
  "map row_id (files rising_world) = [1, 2, 3]
   \<and> sorted_wrt (\<lambda>a b. upload_date a < upload_date b) (files rising_world)
   \<and> get_local_files rising_world = rev (files rising_world)
   \<and> filter (\<lambda>r. upload_date r = Some ''2024-05-01T10:00:00'') (get_local_files tied_world)
       = filter (\<lambda>r. upload_date r = Some ''2024-05-01T10:00:00'') (files tied_world)
   \<and> upload_file demo_platform (demo_env ''u3'' ''2024-05-01T09:59:59'') tied_world2 ''/in/d.txt'' None
       = (Inr (''u3'', ''d.txt''), tied_world)
   \<and> (\<exists>r. cloud_id r = Some (fst (''u3'', ''d.txt''))
          \<and> upload_date r = Some (utcnow1 (demo_env ''u3'' ''2024-05-01T09:59:59''))
          \<and> mset (get_local_files tied_world) = add_mset r (mset (get_local_files tied_world2)))
   \<and> in_int64 2
   \<and> get_local_files (snd (remove_local_file rising_world 2))
       = filter (\<lambda>r. row_id r \<noteq> 2) (get_local_files rising_world)"
proof -
  have ids: "map row_id (files rising_world) = [1, 2, 3]"
    by (simp add: rising_world_def row_defs)
  have a: "sorted_wrt (\<lambda>a b. upload_date a < upload_date b) (files rising_world)"
    by (simp add: rising_world_def row_defs)
  have r: "in_int64 2"
    by (simp add: in_int64_def)
  from get_local_files_by_upload_date
    [where s = rising_world and i = 2] a r
  have "get_local_files rising_world = rev (files rising_world)"
    and "get_local_files (snd (remove_local_file rising_world 2))
       = filter (\<lambda>r. row_id r \<noteq> 2) (get_local_files rising_world)"
    by blast+
  moreover
  from get_local_files_by_upload_date
    [where s = tied_world and k = "Some ''2024-05-01T10:00:00''"]
  have "filter (\<lambda>r. upload_date r = Some ''2024-05-01T10:00:00'') (get_local_files tied_world)
       = filter (\<lambda>r. upload_date r = Some ''2024-05-01T10:00:00'') (files tied_world)"
    by blast
  moreover
  from get_local_files_by_upload_date
    [where s = tied_world2 and P = demo_platform
       and E = "demo_env ''u3'' ''2024-05-01T09:59:59''" and p = "''/in/d.txt''"
       and n = None and res = "(''u3'', ''d.txt'')" and ?s1.0 = tied_world]
    demo_upload3_tied
  have "\<exists>r. cloud_id r = Some (fst (''u3'', ''d.txt''))
          \<and> upload_date r = Some (utcnow1 (demo_env ''u3'' ''2024-05-01T09:59:59''))
          \<and> mset (get_local_files tied_world) = add_mset r (mset (get_local_files tied_world2))"
    by blast
  ultimately show ?thesis using ids a r demo_upload3_tied by blast
qed

text \<open>
  The claim C6 as stated fails. Three files are uploaded one after the other; the
  clock gives the second the same reading as the first and, set back, gives the third
  an earlier one. The records get the ids 1, 2, 3 in the order of their creation, and
  the list returns them in that order, the most recently created last.
\<close>

theorem get_local_files_oldest_first_counterexample:
  "upload_file demo_platform (demo_env ''u1'' ''2024-05-01T10:00:00'') demo_world ''/in/a.txt'' None
     = (Inr (''u1'', ''a.txt''), demo_world1)
   \<and> upload_file demo_platform (demo_env ''u2'' ''2024-05-01T10:00:00'') demo_world1 ''/in/c.txt'' None
     = (Inr (''u2'', ''c.txt''), tied_world2)
   \<and> upload_file demo_platform (demo_env ''u3'' ''2024-05-01T09:59:59'') tied_world2 ''/in/d.txt'' None
     = (Inr (''u3'', ''d.txt''), tied_world)
   \<and> map row_id (files tied_world) = [1, 2, 3]
   \<and> map row_id (get_local_files tied_world) = [1, 2, 3]"
proof -
  have "map row_id (files tied_world) = [1, 2, 3]"
    by (simp add: tied_world_def row_defs)
  moreover have "map row_id (get_local_files tied_world) = [1, 2, 3]"
    by (simp add: get_local_files_def tied_world_def row_defs)
  ultimately show ?thesis
    using demo_upload1 demo_upload2_tied demo_upload3_tied by simp
qed

subsection \<open>Deleting\<close>

lemma remove_local_file_absent:
  assumes "in_int64 i" and "i \<notin> row_id ` set (files s)"
  shows "remove_local_file s i = (Inr (), s)"
proof -
  have "filter (\<lambda>r. row_id r \<noteq> i) (files s) = files s"
    using assms(2) by (auto simp: filter_id_conv)
  with assms(1) show ?thesis by (simp add: remove_local_file_def)
qed

lemma remove_local_file_gone:
  "in_int64 i \<Longrightarrow> i \<notin> row_id ` set (files (snd (remove_local_file s i)))"
  by (auto simp: remove_local_file_def)

lemma remove_local_file_overflow:
  "\<not> in_int64 i \<Longrightarrow> remove_local_file s i = (Inl OverflowError, s)"
  by (simp add: remove_local_file_def)

text \<open>
  C5, as the code has it. \<^verbatim>\<open>remove_local_file\<close> never fails with a not-found
  error. For an id in the signed 64-bit range it returns normally: it removes the
  rows with that id from what \<^verbatim>\<open>get_local_files\<close> returns, on an id that no row
  carries it leaves the world unchanged, and so does a second delete of the same id.
  For an id outside that range the binding raises \<open>OverflowError\<close> and the world
  is unchanged.
\<close>

theorem remove_local_file_never_not_found:
  "fst (remove_local_file s i) \<noteq> Inl RecordNotFound
   \<and> (in_int64 i \<longrightarrow>
        fst (remove_local_file s i) = Inr ()
        \<and> get_local_files (snd (remove_local_file s i))
            = filter (\<lambda>r. row_id r \<noteq> i) (get_local_files s)
        \<and> (i \<notin> row_id ` set (files s) \<longrightarrow> remove_local_file s i = (Inr (), s))
        \<and> remove_local_file (snd (remove_local_file s i)) i
            = (Inr (), snd (remove_local_file s i)))
   \<and> (\<not> in_int64 i \<longrightarrow> remove_local_file s i = (Inl OverflowError, s))"
proof -
  have "fst (remove_local_file s i) \<noteq> Inl RecordNotFound"
    by (simp add: remove_local_file_def)
  moreover have "fst (remove_local_file s i) = Inr ()" if "in_int64 i"
    using that by (simp add: remove_local_file_def)
  moreover have "remove_local_file (snd (remove_local_file s i)) i
                   = (Inr (), snd (remove_local_file s i))" if "in_int64 i"
    using that remove_local_file_gone [OF that] by (rule remove_local_file_absent)
  ultimately show ?thesis
    using get_local_files_remove remove_local_file_absent remove_local_file_overflow
    by blast
qed

lemma rising_world_ids: "row_id ` set (files rising_world) = {1, 2, 3}"
  by (auto simp: rising_world_def row_defs)

lemma demo_world1_ids: "row_id ` set (files demo_world1) = {1}"
  by (simp add: demo_world1_files) (simp add: row_defs)

text \<open>
  The witness deletes the existing id 2 from a table of three rows, twice, then an id
  that no row carries, then an id that does not fit 64 bits.
\<close>

theorem remove_local_file_never_not_found_witness:
  "in_int64 2
   \<and> 2 \<in> row_id ` set (files rising_world)
   \<and> fst (remove_local_file rising_world 2) = Inr ()
   \<and> get_local_files (snd (remove_local_file rising_world 2))
       = filter (\<lambda>r. row_id r \<noteq> 2) (get_local_files rising_world)
   \<and> remove_local_file (snd (remove_local_file rising_world 2)) 2
       = (Inr (), snd (remove_local_file rising_world 2))
   \<and> in_int64 7
   \<and> 7 \<notin> row_id ` set (files rising_world)
   \<and> remove_local_file rising_world 7 = (Inr (), rising_world)
   \<and> \<not> in_int64 (2 ^ 63)
   \<and> remove_local_file rising_world (2 ^ 63) = (Inl OverflowError, rising_world)"
proof -
  have a: "in_int64 2" and b: "in_int64 7" and c: "\<not> in_int64 (2 ^ 63)"
    by (simp_all add: in_int64_def)
  have m: "2 \<in> row_id ` set (files rising_world)"
    and n: "7 \<notin> row_id ` set (files rising_world)"
    by (simp_all add: rising_world_ids)
  from remove_local_file_never_not_found [of rising_world 2]
    remove_local_file_never_not_found [of rising_world 7]
    remove_local_file_never_not_found [of rising_world "2 ^ 63"]
    a b c m n
  show ?thesis by blast
qed

text \<open>
  The claim C5 as stated fails: no row of the vault has the id 7, and deleting the id
  7 returns normally instead of failing with \<open>RecordNotFound\<close>.
\<close>

theorem remove_local_file_absent_id_counterexample:
  "7 \<notin> row_id ` set (files demo_world1)
   \<and> remove_local_file demo_world1 7 = (Inr (), demo_world1)
   \<and> fst (remove_local_file demo_world1 7) \<noteq> Inl RecordNotFound"
proof -
  have a: "7 \<notin> row_id ` set (files demo_world1)"
    by (simp add: demo_world1_ids)
  have b: "in_int64 7"
    by (simp add: in_int64_def)
  from remove_local_file_absent [OF b a] a show ?thesis by simp
qed

subsection \<open>The write to the destination\<close>







subsection \<open>Loading the configuration\<close>

lemma load_config_missing:
  assumes "\<not> path_exists P fsys (config_path_of P db_path)"
    and "can_open P fsys (config_path_of P db_path)"
  shows "\<exists>fsys'. load_config P None fsys db_path = (Inr default_config, fsys')
           \<and> read_bytes P fsys' (config_path_of P db_path)
               = Inr (json_dump P (JDict default_config_items))"
  using assms(1)
    write_bytes_ok [OF assms(2), of "json_dump P (JDict default_config_items)"]
  by (auto simp: load_config_def)

lemma load_config_present:
  assumes "read_bytes P fsys (config_path_of P db_path) = Inr doc"
    and "json_load P doc = Some (JDict items)"
  shows "load_config P fault fsys db_path = (Inr (default_config ++ map_of items), fsys)"
  using assms read_bytes_exists [OF assms(1)]
  by (simp add: load_config_def try_load_def)

lemma load_config_unparsable:
  assumes "read_bytes P fsys (config_path_of P db_path) = Inr doc"
    and "\<And>items. json_load P doc \<noteq> Some (JDict items)"
    and "can_open P fsys (config_path_of P db_path)"
  shows "\<exists>fsys'. load_config P None fsys db_path = (Inr default_config, fsys')
           \<and> read_bytes P fsys' (config_path_of P db_path)
               = Inr (json_dump P (JDict default_config_items))"
proof -
  have "try_load P fsys (config_path_of P db_path) = None"
    using assms(1,2)
    by (auto simp: try_load_def split: option.splits json.splits)
  then show ?thesis
    using write_bytes_ok [OF assms(3), of "json_dump P (JDict default_config_items)"]
      read_bytes_exists [OF assms(1)]
    by (auto simp: load_config_def)
qed

text \<open>Where the settings file is missing and cannot be created, the constructor fails.\<close>

lemma load_config_no_directory:
  assumes "\<not> path_exists P fsys (config_path_of P db_path)"
    and "\<not> can_open P fsys (config_path_of P db_path)"
  shows "load_config P fault fsys db_path = (Inl OSError, fsys)"
  using assms by (simp add: load_config_def write_bytes_refused)

lemma demo_config_no_directory:
  "load_config demo_platform None Map.empty ''/app/cloud_files.sqlite3''
     = (Inl OSError, Map.empty)"
proof -
  have p: "config_path_of demo_platform ''/app/cloud_files.sqlite3'' = ''/app/cloud_config.json''"
    by (simp add: config_path_of_def CONFIG_FILENAME_def demo_platform_def posix_dirname_def
        posix_join_def)
  have "\<not> path_exists demo_platform Map.empty ''/app/cloud_config.json''"
    and "\<not> can_open demo_platform Map.empty ''/app/cloud_config.json''"
    by (simp_all add: fs_defs demo_defs)
  then show ?thesis
    using load_config_no_directory [of demo_platform Map.empty "''/app/cloud_files.sqlite3''" None]
    by (simp add: p)
qed

lemma demo_config_path:
  "config_path_of demo_platform ''/app/cloud_files.sqlite3'' = ''/app/cloud_config.json''"
  by (simp add: config_path_of_def CONFIG_FILENAME_def demo_platform_def posix_dirname_def
      posix_join_def)

lemma demo_config_missing:
  "\<not> path_exists demo_platform empty_fs (config_path_of demo_platform ''/app/cloud_files.sqlite3'')"
  unfolding demo_config_path by (simp add: fs_defs demo_defs empty_fs_def)

lemma demo_config_can_open:
  "can_open demo_platform empty_fs (config_path_of demo_platform ''/app/cloud_files.sqlite3'')"
  unfolding demo_config_path by (simp add: fs_defs demo_defs empty_fs_def)

lemma demo_config_present:
  "read_bytes demo_platform config_fs (config_path_of demo_platform ''/app/cloud_files.sqlite3'')
     = Inr demo_json_text"
  unfolding demo_config_path by (simp add: fs_defs demo_defs config_fs_def)

lemma demo_config_broken:
  "read_bytes demo_platform broken_config_fs
     (config_path_of demo_platform ''/app/cloud_files.sqlite3'') = Inr broken_json_text"
  unfolding demo_config_path by (simp add: fs_defs demo_defs broken_config_fs_def)

lemma demo_config_broken_can_open:
  "can_open demo_platform broken_config_fs
     (config_path_of demo_platform ''/app/cloud_files.sqlite3'')"
  unfolding demo_config_path by (simp add: fs_defs demo_defs broken_config_fs_def)

lemma demo_broken_unparsable: "json_load demo_platform broken_json_text \<noteq> Some (JDict items)"
  by (simp add: demo_platform_def broken_json_text_def demo_json_text_def)

lemma demo_dump_differs:
  "json_dump demo_platform (JDict default_config_items) \<noteq> broken_json_text"
  by (simp add: demo_platform_def broken_json_text_def default_config_items_def)

text \<open>
  C9, as the code has it. When the settings file is missing and can be created,
  \<^verbatim>\<open>_load_config\<close> creates it with the dump of the default dictionary and returns
  the defaults. When the file is present and holds a JSON dictionary, the file
  system is left as it is and the result has, for every key of the file, the file's
  value, and for every other key the default. When the file is present and does not
  hold a JSON dictionary, it is overwritten with the dump of the defaults, and the
  defaults are returned.
\<close>

theorem load_config_defaults_or_merge:
  "(\<not> path_exists P fsys (config_path_of P db_path)
      \<and> can_open P fsys (config_path_of P db_path) \<longrightarrow>
      (\<exists>fsys'. load_config P None fsys db_path = (Inr default_config, fsys')
         \<and> read_bytes P fsys' (config_path_of P db_path)
             = Inr (json_dump P (JDict default_config_items))))
   \<and> (read_bytes P fsys (config_path_of P db_path) = Inr doc
        \<and> json_load P doc = Some (JDict items) \<longrightarrow>
      (\<exists>cfg. load_config P fault fsys db_path = (Inr cfg, fsys)
         \<and> (\<forall>k v. map_of items k = Some v \<longrightarrow> cfg k = Some v)
         \<and> (\<forall>k. map_of items k = None \<longrightarrow> cfg k = default_config k)))
   \<and> (read_bytes P fsys (config_path_of P db_path) = Inr doc
        \<and> (\<forall>items. json_load P doc \<noteq> Some (JDict items))
        \<and> can_open P fsys (config_path_of P db_path) \<longrightarrow>
      (\<exists>fsys'. load_config P None fsys db_path = (Inr default_config, fsys')
         \<and> read_bytes P fsys' (config_path_of P db_path)
             = Inr (json_dump P (JDict default_config_items))))"
proof -
  have "\<exists>cfg. load_config P fault fsys db_path = (Inr cfg, fsys)
         \<and> (\<forall>k v. map_of items k = Some v \<longrightarrow> cfg k = Some v)
         \<and> (\<forall>k. map_of items k = None \<longrightarrow> cfg k = default_config k)"
    if "read_bytes P fsys (config_path_of P db_path) = Inr doc"
      and "json_load P doc = Some (JDict items)"
    using load_config_present [of P fsys db_path doc items fault] that
    by (auto simp: map_add_def)
  then show ?thesis
    using load_config_missing [of P fsys db_path]
      load_config_unparsable [of P fsys db_path doc]
    by blast
qed

theorem load_config_defaults_or_merge_witness:
  "\<not> path_exists demo_platform empty_fs (config_path_of demo_platform ''/app/cloud_files.sqlite3'')
   \<and> can_open demo_platform empty_fs (config_path_of demo_platform ''/app/cloud_files.sqlite3'')
   \<and> (\<exists>fsys'. load_config demo_platform None empty_fs ''/app/cloud_files.sqlite3''
                  = (Inr default_config, fsys')
         \<and> read_bytes demo_platform fsys'
              (config_path_of demo_platform ''/app/cloud_files.sqlite3'')
             = Inr (json_dump demo_platform (JDict default_config_items)))
   \<and> read_bytes demo_platform config_fs
        (config_path_of demo_platform ''/app/cloud_files.sqlite3'') = Inr demo_json_text
   \<and> json_load demo_platform demo_json_text = Some (JDict [(''timeout'', JInt 5)])
   \<and> (\<exists>cfg. load_config demo_platform None config_fs ''/app/cloud_files.sqlite3''
                = (Inr cfg, config_fs)
         \<and> cfg ''timeout'' = Some (JInt 5)
         \<and> cfg ''api_key'' = default_config ''api_key'')
   \<and> read_bytes demo_platform broken_config_fs
        (config_path_of demo_platform ''/app/cloud_files.sqlite3'') = Inr broken_json_text
   \<and> (\<exists>fsys'. load_config demo_platform None broken_config_fs ''/app/cloud_files.sqlite3''
                  = (Inr default_config, fsys')
         \<and> read_bytes demo_platform fsys'
              (config_path_of demo_platform ''/app/cloud_files.sqlite3'')
             = Inr (json_dump demo_platform (JDict default_config_items)))"
proof -
  have c: "json_load demo_platform demo_json_text = Some (JDict [(''timeout'', JInt 5)])"
    by (simp add: demo_platform_def)
  have t: "map_of [(''timeout'', JInt 5)] ''timeout'' = Some (JInt 5)"
    and k: "map_of [(''timeout'', JInt 5)] ''api_key'' = None"
    by simp_all
  from load_config_defaults_or_merge
    [where P = demo_platform and fsys = empty_fs and db_path = "''/app/cloud_files.sqlite3''"]
    demo_config_missing demo_config_can_open
  have one: "\<exists>fsys'. load_config demo_platform None empty_fs ''/app/cloud_files.sqlite3''
                  = (Inr default_config, fsys')
         \<and> read_bytes demo_platform fsys'
              (config_path_of demo_platform ''/app/cloud_files.sqlite3'')
             = Inr (json_dump demo_platform (JDict default_config_items))"
    by blast
  from load_config_defaults_or_merge
    [where P = demo_platform and fsys = config_fs and db_path = "''/app/cloud_files.sqlite3''"
       and doc = demo_json_text and items = "[(''timeout'', JInt 5)]" and fault = None]
    demo_config_present c
  obtain cfg where "load_config demo_platform None config_fs ''/app/cloud_files.sqlite3''
                      = (Inr cfg, config_fs)"
    and "\<forall>k v. map_of [(''timeout'', JInt 5)] k = Some v \<longrightarrow> cfg k = Some v"
    and "\<forall>k. map_of [(''timeout'', JInt 5)] k = None \<longrightarrow> cfg k = default_config k"
    by blast
  with t k have two: "\<exists>cfg. load_config demo_platform None config_fs ''/app/cloud_files.sqlite3''
                = (Inr cfg, config_fs)
         \<and> cfg ''timeout'' = Some (JInt 5)
         \<and> cfg ''api_key'' = default_config ''api_key''"
    by blast
  from load_config_defaults_or_merge
    [where P = demo_platform and fsys = broken_config_fs
       and db_path = "''/app/cloud_files.sqlite3''" and doc = broken_json_text]
    demo_config_broken demo_broken_unparsable demo_config_broken_can_open
  have three: "\<exists>fsys'. load_config demo_platform None broken_config_fs ''/app/cloud_files.sqlite3''
                  = (Inr default_config, fsys')
         \<and> read_bytes demo_platform fsys'
              (config_path_of demo_platform ''/app/cloud_files.sqlite3'')
             = Inr (json_dump demo_platform (JDict default_config_items))"
    by blast
  from one two three demo_config_missing demo_config_can_open demo_config_present c
    demo_config_broken
  show ?thesis by blast
qed

text \<open>
  The claim C9 as stated fails. The settings file is present and holds the text
  \<^verbatim>\<open>{"a":1,}\<close>, which is not valid JSON. The file is not loaded: the defaults are
  returned, and the file no longer holds what it held.
\<close>

theorem load_config_overwrites_counterexample:
  "read_bytes demo_platform broken_config_fs
     (config_path_of demo_platform ''/app/cloud_files.sqlite3'') = Inr broken_json_text
   \<and> fst (load_config demo_platform None broken_config_fs ''/app/cloud_files.sqlite3'')
       = Inr default_config
   \<and> read_bytes demo_platform
        (snd (load_config demo_platform None broken_config_fs ''/app/cloud_files.sqlite3''))
        (config_path_of demo_platform ''/app/cloud_files.sqlite3'')
       = Inr (json_dump demo_platform (JDict default_config_items))
   \<and> json_dump demo_platform (JDict default_config_items) \<noteq> broken_json_text"
proof -
  from load_config_unparsable
    [OF demo_config_broken demo_broken_unparsable demo_config_broken_can_open]
  obtain fsys' where
    "load_config demo_platform None broken_config_fs ''/app/cloud_files.sqlite3''
       = (Inr default_config, fsys')"
    and "read_bytes demo_platform fsys'
           (config_path_of demo_platform ''/app/cloud_files.sqlite3'')
          = Inr (json_dump demo_platform (JDict default_config_items))"
    by blast
  with demo_config_broken demo_dump_differs show ?thesis by simp
qed

end
